theory Spec2Isabelle
  imports Main "HOL-Library.Word"
begin

unbundle bit_operations_syntax

section \<open>Values of the Go standard library used by monCacheOnReadFs.go\<close>

text \<open>
  A \<open>time.Time\<close> is taken as the instant it denotes, an integer count of nanoseconds,
  and a \<open>time.Duration\<close> as an integer count of nanoseconds. File modification times
  carry no monotonic clock reading, so \<open>Before\<close> and \<open>After\<close> compare instants.
\<close>

type_synonym Time = int
type_synonym Duration = int
type_synonym FileMode = "32 word"

definition Time_Add :: "Time \<Rightarrow> Duration \<Rightarrow> Time" where
  "Time_Add t d = t + d"

definition Time_Before :: "Time \<Rightarrow> Time \<Rightarrow> bool" where
  "Time_Before t u = (t < u)"

definition Time_After :: "Time \<Rightarrow> Time \<Rightarrow> bool" where
  "Time_After t u = (t > u)"

text \<open>
  The values an \<open>error\<close> interface can hold, as far as \<open>cacheStatus\<close> tells them apart:
  a bare \<open>syscall.Errno\<close>, the sentinel \<open>os.ErrNotExist\<close>, a non-nil \<open>*os.PathError\<close>
  with its fields \<open>Op\<close>, \<open>Path\<close>, \<open>Err\<close>, a nil pointer of type \<open>*os.PathError\<close> stored
  in the interface (which is not the nil interface), and any other error.
\<close>

datatype error =
    Errno nat
  | ErrNotExist
  | PathError string string error
  | NilPathError
  | OtherError string

definition ENOENT :: error where
  "ENOENT = Errno 2"

definition EPERM :: error where
  "EPERM = Errno 1"

definition EEXIST :: error where
  "EEXIST = Errno 17"

text \<open>
  The type assertion \<open>err.(*os.PathError)\<close> in its two-result form: the asserted value
  and \<open>ok\<close>. When the dynamic type is not \<open>*os.PathError\<close> the value is the zero value
  of that pointer type, a nil \<open>*os.PathError\<close>.
\<close>

fun assertPathError :: "error \<Rightarrow> error \<times> bool" where
  "assertPathError (PathError op path e) = (PathError op path e, True)"
| "assertPathError NilPathError = (NilPathError, True)"
| "assertPathError e = (NilPathError, False)"

text \<open>
  An \<open>os.FileInfo\<close> other than nil. The source reads \<open>ModTime\<close> and \<open>IsDir\<close>.
\<close>

record FileInfo =
  Size :: int
  Mode :: FileMode
  ModTime :: Time
  IsDir :: bool

section \<open>The collaborators: Fs, File, UnionFile, copyToLayer, the watcher\<close>

text \<open>
  Modelled from the spec: the \<open>Fs\<close> interface (section 6, "consumed capability set"),
  which the source file uses for \<open>base\<close> and \<open>layer\<close> but does not declare. Every method
  may read and change the world \<open>'w\<close>; a method with results \<open>(T, error)\<close> yields either
  the error or the value. \<open>'f\<close> is the type of the file handles of the two stores.
\<close>

record ('w, 'f) Fs =
  Fs_Stat :: "string \<Rightarrow> 'w \<Rightarrow> (error + FileInfo) \<times> 'w"
  Fs_Chtimes :: "string \<Rightarrow> Time \<Rightarrow> Time \<Rightarrow> 'w \<Rightarrow> error option \<times> 'w"
  Fs_Chmod :: "string \<Rightarrow> FileMode \<Rightarrow> 'w \<Rightarrow> error option \<times> 'w"
  Fs_Rename :: "string \<Rightarrow> string \<Rightarrow> 'w \<Rightarrow> error option \<times> 'w"
  Fs_Remove :: "string \<Rightarrow> 'w \<Rightarrow> error option \<times> 'w"
  Fs_RemoveAll :: "string \<Rightarrow> 'w \<Rightarrow> error option \<times> 'w"
  Fs_OpenFile :: "string \<Rightarrow> int \<Rightarrow> FileMode \<Rightarrow> 'w \<Rightarrow> (error + 'f) \<times> 'w"
  Fs_Open :: "string \<Rightarrow> 'w \<Rightarrow> (error + 'f) \<times> 'w"
  Fs_Mkdir :: "string \<Rightarrow> FileMode \<Rightarrow> 'w \<Rightarrow> error option \<times> 'w"
  Fs_MkdirAll :: "string \<Rightarrow> FileMode \<Rightarrow> 'w \<Rightarrow> error option \<times> 'w"
  Fs_Create :: "string \<Rightarrow> 'w \<Rightarrow> (error + 'f) \<times> 'w"

text \<open>
  Modelled from the spec: the cache states (section 3) and the fan-out handle
  (section 9), both declared outside the source file. A \<open>File\<close> returned by the cache is
  a handle of one store or a \<open>UnionFile\<close> of two handles, either of which may be nil.
\<close>

datatype cacheState = cacheMiss | cacheStale | cacheHit | cacheLocal

datatype 'f File = StoreFile 'f | UnionFile (uf_base: "'f option") (uf_layer: "'f option")

text \<open>
  What the rest of the package and the libraries provide: the clock, the package function
  \<open>copyToLayer(base, layer, name)\<close>, \<open>Close\<close> on a handle, \<open>fsnotify.NewWatcher\<close>, and
  the open flags of package \<open>os\<close>/\<open>syscall\<close>, whose values depend on the platform.
\<close>

record ('w, 'f) Runtime =
  time_Now :: "'w \<Rightarrow> Time"
  pkg_copyToLayer :: "('w, 'f) Fs \<Rightarrow> ('w, 'f) Fs \<Rightarrow> string \<Rightarrow> 'w \<Rightarrow> error option \<times> 'w"
  File_Close :: "'f \<Rightarrow> 'w \<Rightarrow> error option \<times> 'w"
  fsnotify_NewWatcher :: "'w \<Rightarrow> error option \<times> 'w"
  O_WRONLY :: int
  O_RDWR :: int
  O_APPEND :: int
  O_CREATE :: int
  O_TRUNC :: int

text \<open>
  The struct. Its field \<open>watcher\<close> is never assigned or read in the source file
  (\<open>monitor\<close> keeps its watcher in a local variable) and is left out.
\<close>

record ('w, 'f) MonCacheOnReadFs =
  base :: "('w, 'f) Fs"
  layer :: "('w, 'f) Fs"
  cacheTime :: Duration

section \<open>Calls to the collaborators, recorded\<close>

text \<open>
  Each call that leaves the source file is appended to a trace together with the error it
  returned (\<open>None\<close> for nil), so that the order of the calls and the calls not made can
  be stated.
\<close>

datatype target = Base | Layer

datatype fsop =
    OpStat string
  | OpChtimes string Time Time
  | OpChmod string FileMode
  | OpRename string string
  | OpRemove string
  | OpRemoveAll string
  | OpOpenFile string int FileMode
  | OpOpen string
  | OpMkdir string FileMode
  | OpMkdirAll string FileMode
  | OpCreate string

datatype 'f call =
    FsCall target fsop
  | CopyToLayer string
  | FileClose 'f
  | LogPrintln string error
  | NewWatcher

record ('w, 'f) machine =
  world :: 'w
  trace :: "('f call \<times> error option) list"

definition errOf :: "error + 'a \<Rightarrow> error option" where
  "errOf r = (case r of Inl e \<Rightarrow> Some e | Inr v \<Rightarrow> None)"

definition invoke :: "'f call \<Rightarrow> ('r \<Rightarrow> error option) \<Rightarrow> ('w \<Rightarrow> 'r \<times> 'w) \<Rightarrow>
    ('w, 'f) machine \<Rightarrow> 'r \<times> ('w, 'f) machine" where
  "invoke c err m s =
     (case m (world s) of (r, w') \<Rightarrow> (r, \<lparr>world = w', trace = trace s @ [(c, err r)]\<rparr>))"

definition fs :: "('w, 'f) MonCacheOnReadFs \<Rightarrow> target \<Rightarrow> ('w, 'f) Fs" where
  "fs u t = (case t of Base \<Rightarrow> base u | Layer \<Rightarrow> layer u)"

definition do_Stat :: "('w, 'f) MonCacheOnReadFs \<Rightarrow> target \<Rightarrow> string \<Rightarrow>
    ('w, 'f) machine \<Rightarrow> (error + FileInfo) \<times> ('w, 'f) machine" where
  "do_Stat u t name = invoke (FsCall t (OpStat name)) errOf (Fs_Stat (fs u t) name)"

definition do_Chtimes :: "('w, 'f) MonCacheOnReadFs \<Rightarrow> target \<Rightarrow> string \<Rightarrow> Time \<Rightarrow> Time \<Rightarrow>
    ('w, 'f) machine \<Rightarrow> error option \<times> ('w, 'f) machine" where
  "do_Chtimes u t name atime mtime =
     invoke (FsCall t (OpChtimes name atime mtime)) id (Fs_Chtimes (fs u t) name atime mtime)"

definition do_Chmod :: "('w, 'f) MonCacheOnReadFs \<Rightarrow> target \<Rightarrow> string \<Rightarrow> FileMode \<Rightarrow>
    ('w, 'f) machine \<Rightarrow> error option \<times> ('w, 'f) machine" where
  "do_Chmod u t name mode = invoke (FsCall t (OpChmod name mode)) id (Fs_Chmod (fs u t) name mode)"

definition do_Rename :: "('w, 'f) MonCacheOnReadFs \<Rightarrow> target \<Rightarrow> string \<Rightarrow> string \<Rightarrow>
    ('w, 'f) machine \<Rightarrow> error option \<times> ('w, 'f) machine" where
  "do_Rename u t oldname newname =
     invoke (FsCall t (OpRename oldname newname)) id (Fs_Rename (fs u t) oldname newname)"

definition do_Remove :: "('w, 'f) MonCacheOnReadFs \<Rightarrow> target \<Rightarrow> string \<Rightarrow>
    ('w, 'f) machine \<Rightarrow> error option \<times> ('w, 'f) machine" where
  "do_Remove u t name = invoke (FsCall t (OpRemove name)) id (Fs_Remove (fs u t) name)"

definition do_RemoveAll :: "('w, 'f) MonCacheOnReadFs \<Rightarrow> target \<Rightarrow> string \<Rightarrow>
    ('w, 'f) machine \<Rightarrow> error option \<times> ('w, 'f) machine" where
  "do_RemoveAll u t name = invoke (FsCall t (OpRemoveAll name)) id (Fs_RemoveAll (fs u t) name)"

definition do_OpenFile :: "('w, 'f) MonCacheOnReadFs \<Rightarrow> target \<Rightarrow> string \<Rightarrow> int \<Rightarrow> FileMode \<Rightarrow>
    ('w, 'f) machine \<Rightarrow> (error + 'f) \<times> ('w, 'f) machine" where
  "do_OpenFile u t name flag perm =
     invoke (FsCall t (OpOpenFile name flag perm)) errOf (Fs_OpenFile (fs u t) name flag perm)"

definition do_Open :: "('w, 'f) MonCacheOnReadFs \<Rightarrow> target \<Rightarrow> string \<Rightarrow>
    ('w, 'f) machine \<Rightarrow> (error + 'f) \<times> ('w, 'f) machine" where
  "do_Open u t name = invoke (FsCall t (OpOpen name)) errOf (Fs_Open (fs u t) name)"

definition do_Mkdir :: "('w, 'f) MonCacheOnReadFs \<Rightarrow> target \<Rightarrow> string \<Rightarrow> FileMode \<Rightarrow>
    ('w, 'f) machine \<Rightarrow> error option \<times> ('w, 'f) machine" where
  "do_Mkdir u t name perm = invoke (FsCall t (OpMkdir name perm)) id (Fs_Mkdir (fs u t) name perm)"

definition do_MkdirAll :: "('w, 'f) MonCacheOnReadFs \<Rightarrow> target \<Rightarrow> string \<Rightarrow> FileMode \<Rightarrow>
    ('w, 'f) machine \<Rightarrow> error option \<times> ('w, 'f) machine" where
  "do_MkdirAll u t name perm =
     invoke (FsCall t (OpMkdirAll name perm)) id (Fs_MkdirAll (fs u t) name perm)"

definition do_Create :: "('w, 'f) MonCacheOnReadFs \<Rightarrow> target \<Rightarrow> string \<Rightarrow>
    ('w, 'f) machine \<Rightarrow> (error + 'f) \<times> ('w, 'f) machine" where
  "do_Create u t name = invoke (FsCall t (OpCreate name)) errOf (Fs_Create (fs u t) name)"

definition do_Close :: "('w, 'f) Runtime \<Rightarrow> 'f \<Rightarrow> ('w, 'f) machine \<Rightarrow> error option \<times> ('w, 'f) machine" where
  "do_Close rt h = invoke (FileClose h) id (File_Close rt h)"

definition logPrintln :: "string \<Rightarrow> error \<Rightarrow> ('w, 'f) machine \<Rightarrow> ('w, 'f) machine" where
  "logPrintln msg err s = s\<lparr>trace := trace s @ [(LogPrintln msg err, None)]\<rparr>"

text \<open>
  A method call on a nil interface value panics; the functions that call a method of the
  \<open>os.FileInfo\<close> returned by \<open>cacheStatus\<close> have that outcome written out.
\<close>

datatype 'a go = Return 'a | Panic

section \<open>cacheStatus\<close>

definition cacheStatus :: "('w, 'f) MonCacheOnReadFs \<Rightarrow> ('w, 'f) Runtime \<Rightarrow> string \<Rightarrow>
    ('w, 'f) machine \<Rightarrow> (cacheState \<times> FileInfo option \<times> error option) \<times> ('w, 'f) machine" where
  "cacheStatus u rt name s =
     (case do_Stat u Layer name s of
        (Inr lfi, s1) \<Rightarrow>
          if cacheTime u = 0 then ((cacheHit, Some lfi, None), s1)
          else if Time_Before (Time_Add (ModTime lfi) (cacheTime u)) (time_Now rt (world s1)) then
            (case do_Stat u Base name s1 of
               (Inl err, s2) \<Rightarrow> ((cacheLocal, Some lfi, None), s2)
             | (Inr bfi, s2) \<Rightarrow>
                 if Time_After (ModTime bfi) (ModTime lfi) then ((cacheStale, Some bfi, None), s2)
                 else ((cacheHit, Some lfi, None), s2))
          else ((cacheHit, Some lfi, None), s1)
      | (Inl err, s1) \<Rightarrow>
          if err = ENOENT then ((cacheMiss, None, None), s1)
          else
            (case assertPathError err of
               (err', ok) \<Rightarrow>
                 if ok \<and> err' = ErrNotExist then ((cacheMiss, None, None), s1)
                 else ((cacheMiss, None, Some err'), s1)))"

definition copyToLayer :: "('w, 'f) MonCacheOnReadFs \<Rightarrow> ('w, 'f) Runtime \<Rightarrow> string \<Rightarrow>
    ('w, 'f) machine \<Rightarrow> error option \<times> ('w, 'f) machine" where
  "copyToLayer u rt name = invoke (CopyToLayer name) id (pkg_copyToLayer rt (base u) (layer u) name)"

section \<open>The watcher\<close>

text \<open>
  An \<open>fsnotify.Event\<close> and the bit \<open>fsnotify.Write\<close> of its \<open>Op\<close>. What the goroutine
  receives from the two channels of the watcher is a sequence of messages.
\<close>

datatype Event = Event (Name: string) (Op: "32 word")

definition fsnotify_Write :: "32 word" where
  "fsnotify_Write = 2"

datatype Msg = FromEvents Event | FromErrors error

text \<open>One iteration of the \<open>for\<close>/\<open>select\<close> loop, for the message received.\<close>

definition monitor_select :: "('w, 'f) MonCacheOnReadFs \<Rightarrow> ('w, 'f) Runtime \<Rightarrow> Msg \<Rightarrow>
    ('w, 'f) machine \<Rightarrow> unit go \<times> ('w, 'f) machine" where
  "monitor_select u rt m s =
     (case m of
        FromEvents event \<Rightarrow>
          if Op event AND fsnotify_Write = fsnotify_Write then
            (case cacheStatus u rt (Name event) s of
               ((st, fi, Some err), s1) \<Rightarrow>
                 (Return (), logPrintln ''[MonCacheOnReadFs] Cache status error:'' err s1)
             | ((st, fi, None), s1) \<Rightarrow>
                 if st = cacheLocal \<or> st = cacheStale \<or> st = cacheHit then
                   (case fi of
                      None \<Rightarrow> (Panic, s1)
                    | Some f \<Rightarrow>
                        if \<not> IsDir f then
                          (case copyToLayer u rt (Name event) s1 of
                             (Some err, s2) \<Rightarrow>
                               (Return (), logPrintln ''[MonCacheOnReadFs] Cache error:'' err s2)
                           | (None, s2) \<Rightarrow> (Return (), s2))
                        else (Return (), s1))
                 else (Return (), s1))
          else (Return (), s)
      | FromErrors err \<Rightarrow> (Return (), logPrintln ''[MonCacheOnReadFs] Watcher error:'' err s))"

text \<open>
  The goroutine: it handles the messages in the order received and then waits for the
  next one; a panic ends it.
\<close>

datatype watcherState = NotStarted | Waiting | Crashed

fun monitor_loop :: "('w, 'f) MonCacheOnReadFs \<Rightarrow> ('w, 'f) Runtime \<Rightarrow> Msg list \<Rightarrow>
    ('w, 'f) machine \<Rightarrow> watcherState \<times> ('w, 'f) machine" where
  "monitor_loop u rt [] s = (Waiting, s)"
| "monitor_loop u rt (m # ms) s =
     (case monitor_select u rt m s of
        (Panic, s') \<Rightarrow> (Crashed, s')
      | (Return x, s') \<Rightarrow> monitor_loop u rt ms s')"

definition monitor :: "('w, 'f) MonCacheOnReadFs \<Rightarrow> ('w, 'f) Runtime \<Rightarrow> Msg list \<Rightarrow>
    ('w, 'f) machine \<Rightarrow> watcherState \<times> ('w, 'f) machine" where
  "monitor u rt ms s =
     (case invoke NewWatcher id (fsnotify_NewWatcher rt) s of
        (Some err, s1) \<Rightarrow> (NotStarted, logPrintln ''[MonCacheOnReadFs] NewWatcher error:'' err s1)
      | (None, s1) \<Rightarrow> monitor_loop u rt ms s1)"

section \<open>The verbs\<close>

text \<open>\<open>if err != nil { return err }\<close> followed by the rest of the function.\<close>

definition on_nil :: "error option \<times> 's \<Rightarrow> ('s \<Rightarrow> error option \<times> 's) \<Rightarrow> error option \<times> 's" where
  "on_nil r k = (case r of (Some err, s) \<Rightarrow> (Some err, s) | (None, s) \<Rightarrow> k s)"

definition Chtimes :: "('w, 'f) MonCacheOnReadFs \<Rightarrow> ('w, 'f) Runtime \<Rightarrow> string \<Rightarrow> Time \<Rightarrow> Time \<Rightarrow>
    ('w, 'f) machine \<Rightarrow> error option \<times> ('w, 'f) machine" where
  "Chtimes u rt name atime mtime s =
     (case cacheStatus u rt name s of
        ((st, fi, Some err), s1) \<Rightarrow> (Some err, s1)
      | ((st, fi, None), s1) \<Rightarrow>
          (case st of
             cacheLocal \<Rightarrow> do_Chtimes u Layer name atime mtime s1
           | cacheHit \<Rightarrow>
               on_nil (do_Chtimes u Base name atime mtime s1) (do_Chtimes u Layer name atime mtime)
           | cacheStale \<Rightarrow>
               on_nil (copyToLayer u rt name s1) (\<lambda>s2.
               on_nil (do_Chtimes u Base name atime mtime s2) (do_Chtimes u Layer name atime mtime))
           | cacheMiss \<Rightarrow>
               on_nil (copyToLayer u rt name s1) (\<lambda>s2.
               on_nil (do_Chtimes u Base name atime mtime s2) (do_Chtimes u Layer name atime mtime))))"

definition Chmod :: "('w, 'f) MonCacheOnReadFs \<Rightarrow> ('w, 'f) Runtime \<Rightarrow> string \<Rightarrow> FileMode \<Rightarrow>
    ('w, 'f) machine \<Rightarrow> error option \<times> ('w, 'f) machine" where
  "Chmod u rt name mode s =
     (case cacheStatus u rt name s of
        ((st, fi, Some err), s1) \<Rightarrow> (Some err, s1)
      | ((st, fi, None), s1) \<Rightarrow>
          (case st of
             cacheLocal \<Rightarrow> do_Chmod u Layer name mode s1
           | cacheHit \<Rightarrow> on_nil (do_Chmod u Base name mode s1) (do_Chmod u Layer name mode)
           | cacheStale \<Rightarrow>
               on_nil (copyToLayer u rt name s1) (\<lambda>s2.
               on_nil (do_Chmod u Base name mode s2) (do_Chmod u Layer name mode))
           | cacheMiss \<Rightarrow>
               on_nil (copyToLayer u rt name s1) (\<lambda>s2.
               on_nil (do_Chmod u Base name mode s2) (do_Chmod u Layer name mode))))"

text \<open>The result pair \<open>(os.FileInfo, error)\<close> of a store's \<open>Stat\<close>, as \<open>Stat\<close> returns it.\<close>

definition statResult :: "error + FileInfo \<Rightarrow> FileInfo option \<times> error option" where
  "statResult r = (case r of Inl err \<Rightarrow> (None, Some err) | Inr fi \<Rightarrow> (Some fi, None))"

definition Stat :: "('w, 'f) MonCacheOnReadFs \<Rightarrow> ('w, 'f) Runtime \<Rightarrow> string \<Rightarrow>
    ('w, 'f) machine \<Rightarrow> (FileInfo option \<times> error option) \<times> ('w, 'f) machine" where
  "Stat u rt name s =
     (case cacheStatus u rt name s of
        ((st, fi, Some err), s1) \<Rightarrow> ((None, Some err), s1)
      | ((st, fi, None), s1) \<Rightarrow>
          (case st of
             cacheMiss \<Rightarrow> (case do_Stat u Base name s1 of (r, s2) \<Rightarrow> (statResult r, s2))
           | cacheStale \<Rightarrow> ((fi, None), s1)
           | cacheHit \<Rightarrow> ((fi, None), s1)
           | cacheLocal \<Rightarrow> ((fi, None), s1)))"

definition Rename :: "('w, 'f) MonCacheOnReadFs \<Rightarrow> ('w, 'f) Runtime \<Rightarrow> string \<Rightarrow> string \<Rightarrow>
    ('w, 'f) machine \<Rightarrow> error option \<times> ('w, 'f) machine" where
  "Rename u rt oldname newname s =
     (case cacheStatus u rt oldname s of
        ((st, fi, Some err), s1) \<Rightarrow> (Some err, s1)
      | ((st, fi, None), s1) \<Rightarrow>
          (case st of
             cacheLocal \<Rightarrow> do_Rename u Layer oldname newname s1
           | cacheHit \<Rightarrow>
               on_nil (do_Rename u Base oldname newname s1) (do_Rename u Layer oldname newname)
           | cacheStale \<Rightarrow>
               on_nil (copyToLayer u rt oldname s1) (\<lambda>s2.
               on_nil (do_Rename u Base oldname newname s2) (do_Rename u Layer oldname newname))
           | cacheMiss \<Rightarrow>
               on_nil (copyToLayer u rt oldname s1) (\<lambda>s2.
               on_nil (do_Rename u Base oldname newname s2) (do_Rename u Layer oldname newname))))"

definition Remove :: "('w, 'f) MonCacheOnReadFs \<Rightarrow> ('w, 'f) Runtime \<Rightarrow> string \<Rightarrow>
    ('w, 'f) machine \<Rightarrow> error option \<times> ('w, 'f) machine" where
  "Remove u rt name s =
     (case cacheStatus u rt name s of
        ((st, fi, Some err), s1) \<Rightarrow> (Some err, s1)
      | ((st, fi, None), s1) \<Rightarrow>
          (case st of
             cacheLocal \<Rightarrow> do_Remove u Layer name s1
           | cacheHit \<Rightarrow> on_nil (do_Remove u Base name s1) (do_Remove u Layer name)
           | cacheStale \<Rightarrow> on_nil (do_Remove u Base name s1) (do_Remove u Layer name)
           | cacheMiss \<Rightarrow> on_nil (do_Remove u Base name s1) (do_Remove u Layer name)))"

definition RemoveAll :: "('w, 'f) MonCacheOnReadFs \<Rightarrow> ('w, 'f) Runtime \<Rightarrow> string \<Rightarrow>
    ('w, 'f) machine \<Rightarrow> error option \<times> ('w, 'f) machine" where
  "RemoveAll u rt name s =
     (case cacheStatus u rt name s of
        ((st, fi, Some err), s1) \<Rightarrow> (Some err, s1)
      | ((st, fi, None), s1) \<Rightarrow>
          (case st of
             cacheLocal \<Rightarrow> do_RemoveAll u Layer name s1
           | cacheHit \<Rightarrow> on_nil (do_RemoveAll u Base name s1) (do_RemoveAll u Layer name)
           | cacheStale \<Rightarrow> on_nil (do_RemoveAll u Base name s1) (do_RemoveAll u Layer name)
           | cacheMiss \<Rightarrow> on_nil (do_RemoveAll u Base name s1) (do_RemoveAll u Layer name)))"

text \<open>The result pair \<open>(File, error)\<close> of a store's open, as the cache returns it.\<close>

definition fileResult :: "error + 'f \<Rightarrow> 'f File option \<times> error option" where
  "fileResult r = (case r of Inl err \<Rightarrow> (None, Some err) | Inr h \<Rightarrow> (Some (StoreFile h), None))"

definition writeFlags :: "('w, 'f) Runtime \<Rightarrow> int" where
  "writeFlags rt = O_WRONLY rt OR O_RDWR rt OR O_APPEND rt OR O_CREATE rt OR O_TRUNC rt"

definition OpenFile :: "('w, 'f) MonCacheOnReadFs \<Rightarrow> ('w, 'f) Runtime \<Rightarrow> string \<Rightarrow> int \<Rightarrow> FileMode \<Rightarrow>
    ('w, 'f) machine \<Rightarrow> ('f File option \<times> error option) \<times> ('w, 'f) machine" where
  "OpenFile u rt name flag perm s =
     (case cacheStatus u rt name s of
        ((st, fi, Some err), s1) \<Rightarrow> ((None, Some err), s1)
      | ((st, fi, None), s1) \<Rightarrow>
          (case (case st of
                   cacheLocal \<Rightarrow> (None, s1)
                 | cacheHit \<Rightarrow> (None, s1)
                 | cacheStale \<Rightarrow> copyToLayer u rt name s1
                 | cacheMiss \<Rightarrow> copyToLayer u rt name s1) of
             (Some err, s2) \<Rightarrow> ((None, Some err), s2)
           | (None, s2) \<Rightarrow>
               if flag AND writeFlags rt \<noteq> 0 then
                 (case do_OpenFile u Base name flag perm s2 of
                    (Inl err, s3) \<Rightarrow> ((None, Some err), s3)
                  | (Inr bfi, s3) \<Rightarrow>
                      (case do_OpenFile u Layer name flag perm s3 of
                         (Inl err, s4) \<Rightarrow>
                           (case do_Close rt bfi s4 of (cerr, s5) \<Rightarrow> ((None, Some err), s5))
                       | (Inr lfi, s4) \<Rightarrow> ((Some (UnionFile (Some bfi) (Some lfi)), None), s4)))
               else (case do_OpenFile u Layer name flag perm s2 of (r, s3) \<Rightarrow> (fileResult r, s3))))"

text \<open>
  The end of \<open>Open\<close>, which the directories of \<open>cacheHit\<close> and \<open>cacheStale\<close> reach:
  \<open>bfile\<close> is nil when the open in base returns an error, which is dropped.
\<close>

definition Open_dirs :: "('w, 'f) MonCacheOnReadFs \<Rightarrow> string \<Rightarrow>
    ('w, 'f) machine \<Rightarrow> ('f File option \<times> error option) \<times> ('w, 'f) machine" where
  "Open_dirs u name s =
     (case do_Open u Base name s of
        (b, s1) \<Rightarrow>
          (case do_Open u Layer name s1 of
             (l, s2) \<Rightarrow>
               (let bfile = (case b of Inl e \<Rightarrow> None | Inr h \<Rightarrow> Some h);
                    lfile = (case l of Inl e \<Rightarrow> None | Inr h \<Rightarrow> Some h)
                in if errOf l \<noteq> None \<and> bfile = None then ((None, errOf l), s2)
                   else ((Some (UnionFile bfile lfile), None), s2))))"

definition Open :: "('w, 'f) MonCacheOnReadFs \<Rightarrow> ('w, 'f) Runtime \<Rightarrow> string \<Rightarrow>
    ('w, 'f) machine \<Rightarrow> ('f File option \<times> error option) go \<times> ('w, 'f) machine" where
  "Open u rt name s =
     (case cacheStatus u rt name s of
        ((st, fi, Some err), s1) \<Rightarrow> (Return (None, Some err), s1)
      | ((st, fi, None), s1) \<Rightarrow>
          (case st of
             cacheLocal \<Rightarrow> (case do_Open u Layer name s1 of (r, s2) \<Rightarrow> (Return (fileResult r), s2))
           | cacheMiss \<Rightarrow>
               (case do_Stat u Base name s1 of
                  (Inl err, s2) \<Rightarrow> (Return (None, Some err), s2)
                | (Inr bfi, s2) \<Rightarrow>
                    if IsDir bfi then
                      (case do_Open u Base name s2 of (r, s3) \<Rightarrow> (Return (fileResult r), s3))
                    else
                      (case copyToLayer u rt name s2 of
                         (Some err, s3) \<Rightarrow> (Return (None, Some err), s3)
                       | (None, s3) \<Rightarrow>
                           (case do_Open u Layer name s3 of (r, s4) \<Rightarrow> (Return (fileResult r), s4))))
           | cacheStale \<Rightarrow>
               (case fi of
                  None \<Rightarrow> (Panic, s1)
                | Some f \<Rightarrow>
                    if \<not> IsDir f then
                      (case copyToLayer u rt name s1 of
                         (Some err, s2) \<Rightarrow> (Return (None, Some err), s2)
                       | (None, s2) \<Rightarrow>
                           (case do_Open u Layer name s2 of (r, s3) \<Rightarrow> (Return (fileResult r), s3)))
                    else (case Open_dirs u name s1 of (r, s2) \<Rightarrow> (Return r, s2)))
           | cacheHit \<Rightarrow>
               (case fi of
                  None \<Rightarrow> (Panic, s1)
                | Some f \<Rightarrow>
                    if \<not> IsDir f then
                      (case do_Open u Layer name s1 of (r, s2) \<Rightarrow> (Return (fileResult r), s2))
                    else (case Open_dirs u name s1 of (r, s2) \<Rightarrow> (Return r, s2)))))"

definition Mkdir :: "('w, 'f) MonCacheOnReadFs \<Rightarrow> string \<Rightarrow> FileMode \<Rightarrow>
    ('w, 'f) machine \<Rightarrow> error option \<times> ('w, 'f) machine" where
  "Mkdir u name perm s = on_nil (do_Mkdir u Base name perm s) (do_MkdirAll u Layer name perm)"

definition MkdirAll :: "('w, 'f) MonCacheOnReadFs \<Rightarrow> string \<Rightarrow> FileMode \<Rightarrow>
    ('w, 'f) machine \<Rightarrow> error option \<times> ('w, 'f) machine" where
  "MkdirAll u name perm s = on_nil (do_MkdirAll u Base name perm s) (do_MkdirAll u Layer name perm)"

definition Create :: "('w, 'f) MonCacheOnReadFs \<Rightarrow> ('w, 'f) Runtime \<Rightarrow> string \<Rightarrow>
    ('w, 'f) machine \<Rightarrow> ('f File option \<times> error option) \<times> ('w, 'f) machine" where
  "Create u rt name s =
     (case do_Create u Base name s of
        (Inl err, s1) \<Rightarrow> ((None, Some err), s1)
      | (Inr bfh, s1) \<Rightarrow>
          (case do_Create u Layer name s1 of
             (Inl err, s2) \<Rightarrow> (case do_Close rt bfh s2 of (cerr, s3) \<Rightarrow> ((None, Some err), s3))
           | (Inr lfh, s2) \<Rightarrow> ((Some (UnionFile (Some bfh) (Some lfh)), None), s2)))"

section \<open>An in-memory instance for concrete runs\<close>

text \<open>
  Modelled from the spec: two stores with the capability set of section 6 and the promotion
  primitive of section 6 (the implementations of \<open>Fs\<close> and the package function
  \<open>copyToLayer\<close> are outside the source file). A store is an association list from
  paths to metadata; a read-only store answers every mutation with \<open>EPERM\<close>; a lookup
  that finds nothing returns the store's own not-found error. The concrete runs below use
  this instance; the general theorems hold for every \<open>Fs\<close>.
\<close>

type_synonym Store = "(string \<times> FileInfo) list"

record MemWorld =
  store :: "target \<Rightarrow> Store"
  wallClock :: Time

definition put :: "string \<Rightarrow> FileInfo \<Rightarrow> Store \<Rightarrow> Store" where
  "put name fi st = (name, fi) # filter (\<lambda>e. fst e \<noteq> name) st"

definition del :: "string \<Rightarrow> Store \<Rightarrow> Store" where
  "del name st = filter (\<lambda>e. fst e \<noteq> name) st"

definition setStore :: "target \<Rightarrow> Store \<Rightarrow> MemWorld \<Rightarrow> MemWorld" where
  "setStore t st w = w\<lparr>store := (store w)(t := st)\<rparr>"

definition mutate :: "target \<Rightarrow> bool \<Rightarrow> error \<Rightarrow> string \<Rightarrow> (FileInfo \<Rightarrow> Store \<Rightarrow> Store) \<Rightarrow>
    MemWorld \<Rightarrow> error option \<times> MemWorld" where
  "mutate t readOnly notFound name f w =
     (if readOnly then (Some EPERM, w)
      else case map_of (store w t) name of
             None \<Rightarrow> (Some notFound, w)
           | Some fi \<Rightarrow> (None, setStore t (f fi (store w t)) w))"

definition lookupFile :: "target \<Rightarrow> error \<Rightarrow> string \<Rightarrow> MemWorld \<Rightarrow> (error + target \<times> string) \<times> MemWorld" where
  "lookupFile t notFound name w =
     (case map_of (store w t) name of
        None \<Rightarrow> (Inl notFound, w)
      | Some fi \<Rightarrow> (Inr (t, name), w))"

definition memFs :: "target \<Rightarrow> bool \<Rightarrow> error \<Rightarrow> (MemWorld, target \<times> string) Fs" where
  "memFs t readOnly notFound =
     \<lparr>Fs_Stat = (\<lambda>name w.
        (case map_of (store w t) name of None \<Rightarrow> Inl notFound | Some fi \<Rightarrow> Inr fi, w)),
      Fs_Chtimes = (\<lambda>name atime mtime.
        mutate t readOnly notFound name (\<lambda>fi. put name (fi\<lparr>ModTime := mtime\<rparr>))),
      Fs_Chmod = (\<lambda>name mode.
        mutate t readOnly notFound name (\<lambda>fi. put name (fi\<lparr>Mode := mode\<rparr>))),
      Fs_Rename = (\<lambda>oldname newname.
        mutate t readOnly notFound oldname (\<lambda>fi st. put newname fi (del oldname st))),
      Fs_Remove = (\<lambda>name. mutate t readOnly notFound name (\<lambda>fi. del name)),
      Fs_RemoveAll = (\<lambda>name w.
        if readOnly then (Some EPERM, w) else (None, setStore t (del name (store w t)) w)),
      Fs_OpenFile = (\<lambda>name flag perm w.
        if readOnly \<and> flag \<noteq> 0 then (Inl EPERM, w) else lookupFile t notFound name w),
      Fs_Open = lookupFile t notFound,
      Fs_Mkdir = (\<lambda>name perm w.
        if readOnly then (Some EPERM, w)
        else case map_of (store w t) name of
               Some fi \<Rightarrow> (Some EEXIST, w)
             | None \<Rightarrow>
                 (None, setStore t (put name \<lparr>Size = 0, Mode = perm, ModTime = wallClock w,
                    IsDir = True\<rparr> (store w t)) w)),
      Fs_MkdirAll = (\<lambda>name perm w.
        if readOnly then (Some EPERM, w)
        else case map_of (store w t) name of
               Some fi \<Rightarrow> (None, w)
             | None \<Rightarrow>
                 (None, setStore t (put name \<lparr>Size = 0, Mode = perm, ModTime = wallClock w,
                    IsDir = True\<rparr> (store w t)) w)),
      Fs_Create = (\<lambda>name w.
        if readOnly then (Inl EPERM, w)
        else (Inr (t, name), setStore t (put name \<lparr>Size = 0, Mode = 438,
                ModTime = wallClock w, IsDir = False\<rparr> (store w t)) w))\<rparr>"

definition promote :: "('w, 'f) Fs \<Rightarrow> ('w, 'f) Fs \<Rightarrow> string \<Rightarrow> 'w \<Rightarrow> error option \<times> 'w" where
  "promote b l name w =
     (case Fs_Stat b name w of
        (Inl err, w1) \<Rightarrow> (Some err, w1)
      | (Inr bfi, w1) \<Rightarrow>
          (case Fs_Create l name w1 of
             (Inl err, w2) \<Rightarrow> (Some err, w2)
           | (Inr h, w2) \<Rightarrow> Fs_Chtimes l name (ModTime bfi) (ModTime bfi) w2))"

text \<open>The runtime of the concrete runs, with the open flags of Linux.\<close>

definition memRuntime :: "(MemWorld, target \<times> string) Runtime" where
  "memRuntime =
     \<lparr>time_Now = wallClock,
      pkg_copyToLayer = promote,
      File_Close = (\<lambda>h w. (None, w)),
      fsnotify_NewWatcher = (\<lambda>w. (None, w)),
      O_WRONLY = 1, O_RDWR = 2, O_APPEND = 1024, O_CREATE = 64, O_TRUNC = 512\<rparr>"

definition memCache :: "bool \<Rightarrow> error \<Rightarrow> Duration \<Rightarrow> (MemWorld, target \<times> string) MonCacheOnReadFs" where
  "memCache baseReadOnly layerNotFound window =
     \<lparr>base = memFs Base baseReadOnly ENOENT,
      layer = memFs Layer False layerNotFound,
      cacheTime = window\<rparr>"

definition fileAt :: "Time \<Rightarrow> FileInfo" where
  "fileAt t = \<lparr>Size = 0, Mode = 438, ModTime = t, IsDir = False\<rparr>"

definition dirAt :: "Time \<Rightarrow> FileInfo" where
  "dirAt t = \<lparr>Size = 0, Mode = 493, ModTime = t, IsDir = True\<rparr>"

definition start :: "Store \<Rightarrow> Store \<Rightarrow> Time \<Rightarrow> (MemWorld, target \<times> string) machine" where
  "start b l now =
     \<lparr>world = \<lparr>store = (\<lambda>t. case t of Base \<Rightarrow> b | Layer \<Rightarrow> l), wallClock = now\<rparr>, trace = []\<rparr>"

text \<open>One hour and one second, in nanoseconds.\<close>

definition Hour :: Duration where
  "Hour = 3600000000000"

definition Second :: Duration where
  "Second = 1000000000"

section \<open>Stating which calls an operation makes\<close>

text \<open>
  \<open>chain cs tr r\<close>: the calls \<open>cs\<close> are made in this order, each one only when the one
  before it returned nil; nothing follows a call that returned an error; \<open>r\<close> is that
  error, or nil when every call returned nil. \<open>performs cs s res\<close>: the operation that
  ended with \<open>res\<close> has added to the trace of \<open>s\<close> exactly such a sequence and returned
  its result.
\<close>

fun chain :: "'c list \<Rightarrow> ('c \<times> error option) list \<Rightarrow> error option \<Rightarrow> bool" where
  "chain [] tr r = (tr = [] \<and> r = None)"
| "chain (c # cs) [] r = False"
| "chain (c # cs) ((c', e) # tr) r =
     (c' = c \<and> (case e of Some err \<Rightarrow> tr = [] \<and> r = Some err | None \<Rightarrow> chain cs tr r))"

definition performs :: "'f call list \<Rightarrow> ('w, 'f) machine \<Rightarrow> error option \<times> ('w, 'f) machine \<Rightarrow> bool" where
  "performs cs s res =
     (take (length (trace s)) (trace (snd res)) = trace s \<and>
      chain cs (drop (length (trace s)) (trace (snd res))) (fst res))"

definition emits :: "'f call \<Rightarrow> (('w, 'f) machine \<Rightarrow> error option \<times> ('w, 'f) machine) \<Rightarrow> bool" where
  "emits c f = (\<forall>s r s'. f s = (r, s') \<longrightarrow> trace s' = trace s @ [(c, r)])"

text \<open>
  The calls of \<open>Chtimes\<close>, \<open>Chmod\<close> and \<open>Rename\<close> after the classification, by cache
  state, and those of \<open>Remove\<close> and \<open>RemoveAll\<close>.
\<close>

definition verb_calls :: "cacheState \<Rightarrow> string \<Rightarrow> fsop \<Rightarrow> 'f call list" where
  "verb_calls st name op =
     (case st of
        cacheLocal \<Rightarrow> [FsCall Layer op]
      | cacheHit \<Rightarrow> [FsCall Base op, FsCall Layer op]
      | cacheStale \<Rightarrow> [CopyToLayer name, FsCall Base op, FsCall Layer op]
      | cacheMiss \<Rightarrow> [CopyToLayer name, FsCall Base op, FsCall Layer op])"

definition removal_calls :: "cacheState \<Rightarrow> fsop \<Rightarrow> 'f call list" where
  "removal_calls st op =
     (case st of
        cacheLocal \<Rightarrow> [FsCall Layer op]
      | cacheHit \<Rightarrow> [FsCall Base op, FsCall Layer op]
      | cacheStale \<Rightarrow> [FsCall Base op, FsCall Layer op]
      | cacheMiss \<Rightarrow> [FsCall Base op, FsCall Layer op])"

text \<open>
  \<open>promoted u rt name st s1 s2\<close>: \<open>s2\<close> is the machine in which \<open>OpenFile\<close> reaches its
  test of the flags, coming from \<open>s1\<close> after the classification \<open>st\<close>: unchanged for
  \<open>cacheLocal\<close> and \<open>cacheHit\<close>, after a promotion that returned nil otherwise.
\<close>

definition promoted :: "('w, 'f) MonCacheOnReadFs \<Rightarrow> ('w, 'f) Runtime \<Rightarrow> string \<Rightarrow> cacheState \<Rightarrow>
    ('w, 'f) machine \<Rightarrow> ('w, 'f) machine \<Rightarrow> bool" where
  "promoted u rt name st s1 s2 =
     (if st = cacheLocal \<or> st = cacheHit then s2 = s1
      else copyToLayer u rt name s1 = (None, s2))"

text \<open>
  What \<open>Open\<close> returns for a directory of \<open>cacheHit\<close> or \<open>cacheStale\<close>, from the results
  of the two opens: an error only when both failed.
\<close>

definition dirHandle :: "(error + 'f) \<Rightarrow> (error + 'f) \<Rightarrow> 'f File option \<times> error option" where
  "dirHandle b l =
     (case (b, l) of
        (Inl berr, Inl lerr) \<Rightarrow> (None, Some lerr)
      | (Inl berr, Inr lfile) \<Rightarrow> (Some (UnionFile None (Some lfile)), None)
      | (Inr bfile, Inl lerr) \<Rightarrow> (Some (UnionFile (Some bfile) None), None)
      | (Inr bfile, Inr lfile) \<Rightarrow> (Some (UnionFile (Some bfile) (Some lfile)), None))"

section \<open>Evaluating the concrete runs\<close>

lemmas mem_simps = memCache_def memFs_def memRuntime_def start_def fileAt_def dirAt_def
  put_def del_def setStore_def mutate_def lookupFile_def promote_def Hour_def Second_def
  ENOENT_def EPERM_def EEXIST_def

lemmas call_simps = do_Stat_def do_Chtimes_def do_Chmod_def do_Rename_def do_Remove_def
  do_RemoveAll_def do_OpenFile_def do_Open_def do_Mkdir_def do_MkdirAll_def do_Create_def
  do_Close_def copyToLayer_def logPrintln_def invoke_def fs_def errOf_def on_nil_def

lemmas time_simps = Time_Before_def Time_Add_def Time_After_def

section \<open>cacheStatus on a path that the layer has\<close>

lemma do_Stat_trace:
  "do_Stat u t name s = (r, s1) \<Longrightarrow> trace s1 = trace s @ [(FsCall t (OpStat name), errOf r)]"
  by (auto simp: do_Stat_def invoke_def split: prod.splits)

text \<open>
  C1. Let the layer's \<open>Stat\<close> of the path succeed with metadata \<open>lfi\<close>. If the window
  is zero, or the modification time of \<open>lfi\<close> plus the window is not before the current
  time, \<open>cacheStatus\<close> returns \<open>cacheHit\<close> with \<open>lfi\<close>. If the window has elapsed, it
  returns \<open>cacheLocal\<close> with \<open>lfi\<close> and a nil error when the base's \<open>Stat\<close> fails,
  \<open>cacheStale\<close> with the base's metadata when the base's modification time is strictly
  later, and \<open>cacheHit\<close> with \<open>lfi\<close> otherwise. With window zero the only call made is
  the layer's \<open>Stat\<close>: the base is not consulted, whatever it holds.
\<close>

theorem C1_cacheStatus_layer_entry:
  assumes L: "do_Stat u Layer name s = (Inr lfi, s1)"
  shows "(cacheTime u = 0 \<or> \<not> ModTime lfi + cacheTime u < time_Now rt (world s1) \<longrightarrow>
            cacheStatus u rt name s = ((cacheHit, Some lfi, None), s1))
       \<and> (cacheTime u \<noteq> 0 \<and> ModTime lfi + cacheTime u < time_Now rt (world s1) \<longrightarrow>
            (\<forall>err s2. do_Stat u Base name s1 = (Inl err, s2) \<longrightarrow>
               cacheStatus u rt name s = ((cacheLocal, Some lfi, None), s2))
          \<and> (\<forall>bfi s2. do_Stat u Base name s1 = (Inr bfi, s2) \<longrightarrow>
               cacheStatus u rt name s =
                 (if ModTime bfi > ModTime lfi then (cacheStale, Some bfi, None)
                  else (cacheHit, Some lfi, None), s2)))
       \<and> (cacheTime u = 0 \<longrightarrow>
            trace (snd (cacheStatus u rt name s)) = trace s @ [(FsCall Layer (OpStat name), None)])"
proof -
  have tr: "trace s1 = trace s @ [(FsCall Layer (OpStat name), None)]"
    using do_Stat_trace [OF L] by (simp add: errOf_def)
  show ?thesis
    using L tr by (simp add: cacheStatus_def time_simps)
qed

text \<open>
  Three runs: window zero with a newer file in base (a hit, one call), window one hour
  elapsed with a newer file in base (stale, the base's metadata), and window one hour
  elapsed with no file in base (local).
\<close>

theorem C1_cacheStatus_layer_entry_witness:
  "cacheStatus (memCache False ENOENT 0) memRuntime ''/b''
       (start [(''/b'', fileAt (2 * Hour))] [(''/b'', fileAt 0)] (3 * Hour))
     = ((cacheHit, Some (fileAt 0), None),
        \<lparr>world = world (start [(''/b'', fileAt (2 * Hour))] [(''/b'', fileAt 0)] (3 * Hour)),
         trace = [(FsCall Layer (OpStat ''/b''), None)]\<rparr>)
   \<and> fst (cacheStatus (memCache False ENOENT Hour) memRuntime ''/b''
       (start [(''/b'', fileAt (2 * Hour))] [(''/b'', fileAt 0)] (3 * Hour)))
     = (cacheStale, Some (fileAt (2 * Hour)), None)
   \<and> fst (cacheStatus (memCache False ENOENT Hour) memRuntime ''/b''
       (start [] [(''/b'', fileAt 0)] (3 * Hour)))
     = (cacheLocal, Some (fileAt 0), None)"
  using C1_cacheStatus_layer_entry [of "memCache False ENOENT 0" "''/b''"
      "start [(''/b'', fileAt (2 * Hour))] [(''/b'', fileAt 0)] (3 * Hour)" "fileAt 0"
      "\<lparr>world = world (start [(''/b'', fileAt (2 * Hour))] [(''/b'', fileAt 0)] (3 * Hour)),
        trace = [(FsCall Layer (OpStat ''/b''), None)]\<rparr>" memRuntime]
    C1_cacheStatus_layer_entry [of "memCache False ENOENT Hour" "''/b''"
      "start [(''/b'', fileAt (2 * Hour))] [(''/b'', fileAt 0)] (3 * Hour)" "fileAt 0"
      "\<lparr>world = world (start [(''/b'', fileAt (2 * Hour))] [(''/b'', fileAt 0)] (3 * Hour)),
        trace = [(FsCall Layer (OpStat ''/b''), None)]\<rparr>" memRuntime]
    C1_cacheStatus_layer_entry [of "memCache False ENOENT Hour" "''/b''"
      "start [] [(''/b'', fileAt 0)] (3 * Hour)" "fileAt 0"
      "\<lparr>world = world (start [] [(''/b'', fileAt 0)] (3 * Hour)),
        trace = [(FsCall Layer (OpStat ''/b''), None)]\<rparr>" memRuntime]
  by (simp add: mem_simps do_Stat_def invoke_def fs_def errOf_def)

section \<open>The metadata returned by cacheStatus\<close>

lemma cacheStatus_some:
  assumes "cacheStatus u rt name s = ((st, fi, None), s')"
  shows "(fi \<noteq> None \<longleftrightarrow> st = cacheHit \<or> st = cacheLocal \<or> st = cacheStale)
       \<and> (fi = None \<longleftrightarrow> st = cacheMiss)"
  using assms
  by (auto simp: cacheStatus_def split: prod.splits sum.splits if_splits)

lemma Open_no_panic: "fst (Open u rt name s) \<noteq> Panic"
proof -
  obtain st fi err s1 where c: "cacheStatus u rt name s = ((st, fi, err), s1)"
    by (metis prod.exhaust)
  show ?thesis
  proof (cases err)
    case (Some e)
    with c show ?thesis by (simp add: Open_def)
  next
    case None
    with c cacheStatus_some [of u rt name s st fi s1] show ?thesis
      by (cases st; cases fi) (auto simp: Open_def split: prod.splits sum.splits option.splits)
  qed
qed

lemma monitor_select_no_panic: "fst (monitor_select u rt m s) \<noteq> Panic"
proof (cases m)
  case (FromErrors e)
  then show ?thesis by (simp add: monitor_select_def)
next
  case (FromEvents event)
  obtain st fi err s1 where c: "cacheStatus u rt (Name event) s = ((st, fi, err), s1)"
    by (metis prod.exhaust)
  show ?thesis
  proof (cases err)
    case (Some e)
    with c FromEvents show ?thesis by (simp add: monitor_select_def)
  next
    case None
    with c FromEvents cacheStatus_some [of u rt "Name event" s st fi s1] show ?thesis
      by (cases st; cases fi) (auto simp: monitor_select_def split: prod.splits option.splits)
  qed
qed

text \<open>
  C9. Whenever \<open>cacheStatus\<close> returns a nil error, the metadata it returns is non-nil
  exactly for \<open>cacheHit\<close>, \<open>cacheLocal\<close> and \<open>cacheStale\<close> and nil exactly for
  \<open>cacheMiss\<close>. So \<open>Stat\<close> returns that non-nil metadata in its default branch, and the
  calls of \<open>IsDir\<close> in \<open>Open\<close> and in the watcher never meet a nil \<open>os.FileInfo\<close>: neither
  panics.
\<close>

theorem C9_cacheStatus_metadata:
  "(\<forall>st fi s'. cacheStatus u rt name s = ((st, fi, None), s') \<longrightarrow>
      (fi \<noteq> None \<longleftrightarrow> st = cacheHit \<or> st = cacheLocal \<or> st = cacheStale)
    \<and> (fi = None \<longleftrightarrow> st = cacheMiss)
    \<and> (st \<noteq> cacheMiss \<longrightarrow> Stat u rt name s = ((fi, None), s')))
   \<and> fst (Open u rt name s) \<noteq> Panic
   \<and> fst (monitor_select u rt m s) \<noteq> Panic"
proof -
  have "Stat u rt name s = ((fi, None), s')"
    if "cacheStatus u rt name s = ((st, fi, None), s')" and "st \<noteq> cacheMiss" for st fi s'
    using that by (cases st) (simp_all add: Stat_def)
  then show ?thesis
    using cacheStatus_some [of u rt name s] Open_no_panic [of u rt name s]
      monitor_select_no_panic [of u rt m s]
    by blast
qed

theorem C9_cacheStatus_metadata_witness:
  "cacheStatus (memCache False ENOENT Hour) memRuntime ''/a''
       (start [(''/a'', fileAt (2 * Hour))] [(''/a'', fileAt 0)] (3 * Hour))
     = ((cacheStale, Some (fileAt (2 * Hour)), None),
        \<lparr>world = world (start [(''/a'', fileAt (2 * Hour))] [(''/a'', fileAt 0)] (3 * Hour)),
         trace = [(FsCall Layer (OpStat ''/a''), None), (FsCall Base (OpStat ''/a''), None)]\<rparr>)
   \<and> Stat (memCache False ENOENT Hour) memRuntime ''/a''
       (start [(''/a'', fileAt (2 * Hour))] [(''/a'', fileAt 0)] (3 * Hour))
     = ((Some (fileAt (2 * Hour)), None),
        \<lparr>world = world (start [(''/a'', fileAt (2 * Hour))] [(''/a'', fileAt 0)] (3 * Hour)),
         trace = [(FsCall Layer (OpStat ''/a''), None), (FsCall Base (OpStat ''/a''), None)]\<rparr>)
   \<and> fst (Open (memCache False ENOENT Hour) memRuntime ''/a''
       (start [(''/a'', fileAt (2 * Hour))] [(''/a'', fileAt 0)] (3 * Hour))) \<noteq> Panic
   \<and> fst (monitor_select (memCache False ENOENT Hour) memRuntime
       (FromEvents (Event ''/a'' 2))
       (start [(''/a'', fileAt (2 * Hour))] [(''/a'', fileAt 0)] (3 * Hour))) \<noteq> Panic"
  using C9_cacheStatus_metadata [of "memCache False ENOENT Hour" memRuntime "''/a''"
      "start [(''/a'', fileAt (2 * Hour))] [(''/a'', fileAt 0)] (3 * Hour)"
      "FromEvents (Event ''/a'' 2)"]
  by (simp add: mem_simps cacheStatus_def call_simps time_simps)

section \<open>cacheStatus on a path whose Stat fails in the layer\<close>

text \<open>
  What \<open>cacheStatus\<close> returns when the layer's \<open>Stat\<close> fails: \<open>cacheMiss\<close> with a nil
  error for a bare \<open>syscall.ENOENT\<close>, and for every other error \<open>cacheMiss\<close> with the
  value of the type assertion as the error. The comparison with \<open>os.ErrNotExist\<close> never
  holds, since that value is a \<open>*os.PathError\<close>.
\<close>

lemma cacheStatus_layer_error:
  assumes "do_Stat u Layer name s = (Inl err, s1)"
  shows "cacheStatus u rt name s =
           ((cacheMiss, None, if err = ENOENT then None else Some (fst (assertPathError err))), s1)"
  using assms by (cases err) (simp_all add: cacheStatus_def ENOENT_def)

text \<open>
  C7. The claim: a not-found error of the layer's \<open>Stat\<close>, also as a path error wrapping
  not-found, gives \<open>cacheMiss\<close> with a nil error, and any other error is returned as it is.
  The code compares the \<open>*os.PathError\<close> itself, not its field \<open>Err\<close>, with
  \<open>os.ErrNotExist\<close>, and assigns the result of the type assertion to \<open>err\<close>. So a path
  error wrapping \<open>os.ErrNotExist\<close> or \<open>ENOENT\<close> is returned as an error, and an error
  that is not a \<open>*os.PathError\<close> (a bare \<open>os.ErrNotExist\<close>, an I/O error) is replaced by a
  nil \<open>*os.PathError\<close>; only a bare \<open>syscall.ENOENT\<close> gives \<open>cacheMiss\<close> with a nil error.
\<close>

theorem C7_cacheStatus_layer_stat_error:
  "fst (cacheStatus (memCache False (PathError ''stat'' ''/x'' ErrNotExist) 0) memRuntime ''/x''
          (start [] [] 0))
     = (cacheMiss, None, Some (PathError ''stat'' ''/x'' ErrNotExist))
   \<and> fst (cacheStatus (memCache False (PathError ''stat'' ''/x'' ENOENT) 0) memRuntime ''/x''
          (start [] [] 0))
     = (cacheMiss, None, Some (PathError ''stat'' ''/x'' ENOENT))
   \<and> fst (cacheStatus (memCache False ErrNotExist 0) memRuntime ''/x'' (start [] [] 0))
     = (cacheMiss, None, Some NilPathError)
   \<and> fst (cacheStatus (memCache False (OtherError ''input/output error'') 0) memRuntime ''/x''
          (start [] [] 0))
     = (cacheMiss, None, Some NilPathError)
   \<and> fst (cacheStatus (memCache False ENOENT 0) memRuntime ''/x'' (start [] [] 0))
     = (cacheMiss, None, None)"
  by (simp add: mem_simps cacheStatus_def call_simps)

section \<open>Stat on a stale path\<close>

text \<open>
  C2, as claimed: in the scenario (window one hour, layer entry of time \<open>T\<close>, base entry of
  time \<open>T\<close> plus two hours, current time \<open>T\<close> plus one hour and one second) \<open>Stat\<close> triggers
  a promotion. It does not: with \<open>T = 1000\<close> the path is classified \<open>cacheStale\<close>, \<open>Stat\<close>
  calls the two \<open>Stat\<close>s only, and the layer still holds the entry of time \<open>T\<close>.
\<close>

theorem C2_Stat_promotes_counterexample:
  "fst (cacheStatus (memCache False ENOENT Hour) memRuntime ''/a''
          (start [(''/a'', fileAt (1000 + 2 * Hour))] [(''/a'', fileAt 1000)]
             (1000 + Hour + Second)))
     = (cacheStale, Some (fileAt (1000 + 2 * Hour)), None)
   \<and> trace (snd (Stat (memCache False ENOENT Hour) memRuntime ''/a''
          (start [(''/a'', fileAt (1000 + 2 * Hour))] [(''/a'', fileAt 1000)]
             (1000 + Hour + Second))))
     = [(FsCall Layer (OpStat ''/a''), None), (FsCall Base (OpStat ''/a''), None)]
   \<and> store (world (snd (Stat (memCache False ENOENT Hour) memRuntime ''/a''
          (start [(''/a'', fileAt (1000 + 2 * Hour))] [(''/a'', fileAt 1000)]
             (1000 + Hour + Second))))) Layer
     = [(''/a'', fileAt 1000)]"
  by (simp add: mem_simps cacheStatus_def Stat_def call_simps time_simps)

text \<open>
  C2, amended: in the scenario \<open>cacheStatus\<close> returns \<open>cacheStale\<close> and \<open>Stat\<close> returns
  the base's metadata, of modification time \<open>T\<close> plus two hours, as \<open>cacheStatus\<close>
  returned it; no promotion is made, the calls are the layer's and the base's \<open>Stat\<close>.
\<close>

theorem C2_Stat_stale_scenario:
  assumes "cacheTime u = Hour"
    and "do_Stat u Layer name s = (Inr lfi, s1)"
    and "do_Stat u Base name s1 = (Inr bfi, s2)"
    and "ModTime bfi = ModTime lfi + 2 * Hour"
    and "time_Now rt (world s1) = ModTime lfi + Hour + Second"
  shows "cacheStatus u rt name s = ((cacheStale, Some bfi, None), s2)
       \<and> Stat u rt name s = ((Some bfi, None), s2)
       \<and> trace s2 = trace s @ [(FsCall Layer (OpStat name), None), (FsCall Base (OpStat name), None)]"
proof -
  have c: "cacheStatus u rt name s = ((cacheStale, Some bfi, None), s2)"
    using assms by (simp add: cacheStatus_def time_simps Hour_def Second_def)
  have t: "trace s2 = trace s @ [(FsCall Layer (OpStat name), None), (FsCall Base (OpStat name), None)]"
    using do_Stat_trace [OF assms(2)] do_Stat_trace [OF assms(3)] by (simp add: errOf_def)
  from c t show ?thesis by (simp add: Stat_def)
qed

theorem C2_Stat_stale_scenario_witness:
  "Stat (memCache False ENOENT Hour) memRuntime ''/a''
      (start [(''/a'', fileAt (1000 + 2 * Hour))] [(''/a'', fileAt 1000)] (1000 + Hour + Second))
     = ((Some (fileAt (1000 + 2 * Hour)), None),
        \<lparr>world = world (start [(''/a'', fileAt (1000 + 2 * Hour))] [(''/a'', fileAt 1000)]
                          (1000 + Hour + Second)),
         trace = [(FsCall Layer (OpStat ''/a''), None), (FsCall Base (OpStat ''/a''), None)]\<rparr>)
   \<and> ModTime (fileAt (1000 + 2 * Hour)) = ModTime (fileAt 1000) + 2 * Hour"
  using C2_Stat_stale_scenario [of "memCache False ENOENT Hour" "''/a''"
      "start [(''/a'', fileAt (1000 + 2 * Hour))] [(''/a'', fileAt 1000)] (1000 + Hour + Second)"
      "fileAt 1000"
      "\<lparr>world = world (start [(''/a'', fileAt (1000 + 2 * Hour))] [(''/a'', fileAt 1000)]
                        (1000 + Hour + Second)),
        trace = [(FsCall Layer (OpStat ''/a''), None)]\<rparr>"
      "fileAt (1000 + 2 * Hour)"
      "\<lparr>world = world (start [(''/a'', fileAt (1000 + 2 * Hour))] [(''/a'', fileAt 1000)]
                        (1000 + Hour + Second)),
        trace = [(FsCall Layer (OpStat ''/a''), None), (FsCall Base (OpStat ''/a''), None)]\<rparr>"
      memRuntime]
  by (simp add: mem_simps do_Stat_def invoke_def fs_def errOf_def)


section \<open>The calls of the mutating verbs\<close>

lemma invoke_trace: "invoke c err m s = (r, s') \<Longrightarrow> trace s' = trace s @ [(c, err r)]"
  by (auto simp: invoke_def split: prod.splits)

lemma invoke_emits: "emits c (invoke c id m)"
  by (auto simp: emits_def invoke_def split: prod.splits)

lemma performs_last: "emits c f \<Longrightarrow> performs [c] s (f s)"
  by (cases "f s") (auto simp: emits_def performs_def split: option.splits)

lemma performs_on_nil:
  assumes e: "emits c f" and k: "\<And>s1. performs cs s1 (k s1)"
  shows "performs (c # cs) s (on_nil (f s) k)"
proof (cases "f s")
  case (Pair r s1)
  with e have t1: "trace s1 = trace s @ [(c, r)]" by (simp add: emits_def)
  show ?thesis
  proof (cases r)
    case None
    let ?rest = "drop (length (trace s1)) (trace (snd (k s1)))"
    from k [of s1] have a: "take (length (trace s1)) (trace (snd (k s1))) = trace s1"
      and b: "chain cs ?rest (fst (k s1))"
      by (simp_all add: performs_def)
    from a have "trace (snd (k s1)) = trace s1 @ ?rest"
      by (metis append_take_drop_id)
    with t1 None have c: "trace (snd (k s1)) = trace s @ (c, None) # ?rest"
      by simp
    have d: "take (length (trace s)) (trace (snd (k s1))) = trace s"
      by (subst c) simp
    have "drop (length (trace s)) (trace (snd (k s1))) = (c, None) # ?rest"
      by (subst c) simp
    with Pair None b d show ?thesis by (simp add: on_nil_def performs_def)
  next
    case (Some err)
    with Pair t1 show ?thesis by (simp add: on_nil_def performs_def)
  qed
qed

text \<open>
  What \<open>chain\<close> says of an error: the call that returned it is the last call made, and
  the error is the result. And of a run without error: every call was made.
\<close>

lemma chain_abort:
  "chain cs tr r \<Longrightarrow> (c, Some err) \<in> set tr \<Longrightarrow> r = Some err \<and> last tr = (c, Some err)"
  by (induction cs tr r rule: chain.induct) (auto split: option.splits)

lemma chain_complete:
  "chain cs tr r \<Longrightarrow> \<forall>e \<in> set tr. snd e = None \<Longrightarrow> map fst tr = cs \<and> r = None"
  by (induction cs tr r rule: chain.induct) (auto split: option.splits)

lemma performs_abort:
  assumes "performs cs s res"
    and "(c, Some err) \<in> set (drop (length (trace s)) (trace (snd res)))"
  shows "fst res = Some err \<and> last (trace (snd res)) = (c, Some err)"
proof -
  let ?new = "drop (length (trace s)) (trace (snd res))"
  from assms have a: "fst res = Some err" and b: "last ?new = (c, Some err)"
    using chain_abort [of cs ?new "fst res" c err] by (simp_all add: performs_def)
  from assms(2) have "?new \<noteq> []" by auto
  then have "last (trace (snd res)) = last ?new" by simp
  with a b show ?thesis by simp
qed

lemma emits_Chtimes: "emits (FsCall t (OpChtimes name a m)) (do_Chtimes u t name a m)"
  unfolding do_Chtimes_def by (rule invoke_emits)

lemma emits_Chmod: "emits (FsCall t (OpChmod name mode)) (do_Chmod u t name mode)"
  unfolding do_Chmod_def by (rule invoke_emits)

lemma emits_Rename: "emits (FsCall t (OpRename a b)) (do_Rename u t a b)"
  unfolding do_Rename_def by (rule invoke_emits)

lemma emits_Remove: "emits (FsCall t (OpRemove name)) (do_Remove u t name)"
  unfolding do_Remove_def by (rule invoke_emits)

lemma emits_RemoveAll: "emits (FsCall t (OpRemoveAll name)) (do_RemoveAll u t name)"
  unfolding do_RemoveAll_def by (rule invoke_emits)

lemma emits_Mkdir: "emits (FsCall t (OpMkdir name perm)) (do_Mkdir u t name perm)"
  unfolding do_Mkdir_def by (rule invoke_emits)

lemma emits_MkdirAll: "emits (FsCall t (OpMkdirAll name perm)) (do_MkdirAll u t name perm)"
  unfolding do_MkdirAll_def by (rule invoke_emits)

lemma emits_copyToLayer: "emits (CopyToLayer name) (copyToLayer u rt name)"
  unfolding copyToLayer_def by (rule invoke_emits)

lemmas emits_intros = emits_Chtimes emits_Chmod emits_Rename emits_Remove emits_RemoveAll
  emits_Mkdir emits_MkdirAll emits_copyToLayer

lemmas performs_intros = performs_on_nil performs_last

lemma Chtimes_performs:
  "cacheStatus u rt name s = ((st, fi, None), s1) \<Longrightarrow>
   performs (verb_calls st name (OpChtimes name a m)) s1 (Chtimes u rt name a m s)"
  by (cases st) (simp_all add: Chtimes_def verb_calls_def performs_intros emits_intros)

lemma Chmod_performs:
  "cacheStatus u rt name s = ((st, fi, None), s1) \<Longrightarrow>
   performs (verb_calls st name (OpChmod name mode)) s1 (Chmod u rt name mode s)"
  by (cases st) (simp_all add: Chmod_def verb_calls_def performs_intros emits_intros)

lemma Rename_performs:
  "cacheStatus u rt name s = ((st, fi, None), s1) \<Longrightarrow>
   performs (verb_calls st name (OpRename name newname)) s1 (Rename u rt name newname s)"
  by (cases st) (simp_all add: Rename_def verb_calls_def performs_intros emits_intros)

lemma Remove_performs:
  "cacheStatus u rt name s = ((st, fi, None), s1) \<Longrightarrow>
   performs (removal_calls st (OpRemove name)) s1 (Remove u rt name s)"
  by (cases st) (simp_all add: Remove_def removal_calls_def performs_intros emits_intros)

lemma RemoveAll_performs:
  "cacheStatus u rt name s = ((st, fi, None), s1) \<Longrightarrow>
   performs (removal_calls st (OpRemoveAll name)) s1 (RemoveAll u rt name s)"
  by (cases st) (simp_all add: RemoveAll_def removal_calls_def performs_intros emits_intros)

lemma Mkdir_performs:
  "performs [FsCall Base (OpMkdir name perm), FsCall Layer (OpMkdirAll name perm)] s
     (Mkdir u name perm s)"
  by (simp add: Mkdir_def performs_intros emits_intros)

lemma MkdirAll_performs:
  "performs [FsCall Base (OpMkdirAll name perm), FsCall Layer (OpMkdirAll name perm)] s
     (MkdirAll u name perm s)"
  by (simp add: MkdirAll_def performs_intros emits_intros)

text \<open>
  C3, as claimed: every one of \<open>Chtimes\<close>, \<open>Chmod\<close>, \<open>Rename\<close>, \<open>Remove\<close>, \<open>RemoveAll\<close>
  promotes a stale or missing path before it applies the verb to base. \<open>Remove\<close> and
  \<open>RemoveAll\<close> do not: on a stale path (first two runs) and on a missing one (last two)
  they go to base at once, and \<open>copyToLayer\<close> is not called.
\<close>

theorem C3_Remove_promotes_counterexample:
  "fst (cacheStatus (memCache False ENOENT Hour) memRuntime ''/a''
          (start [(''/a'', fileAt (2 * Hour))] [(''/a'', fileAt 0)] (3 * Hour)))
     = (cacheStale, Some (fileAt (2 * Hour)), None)
   \<and> trace (snd (Remove (memCache False ENOENT Hour) memRuntime ''/a''
          (start [(''/a'', fileAt (2 * Hour))] [(''/a'', fileAt 0)] (3 * Hour))))
     = [(FsCall Layer (OpStat ''/a''), None), (FsCall Base (OpStat ''/a''), None),
        (FsCall Base (OpRemove ''/a''), None), (FsCall Layer (OpRemove ''/a''), None)]
   \<and> trace (snd (RemoveAll (memCache False ENOENT Hour) memRuntime ''/a''
          (start [(''/a'', fileAt (2 * Hour))] [(''/a'', fileAt 0)] (3 * Hour))))
     = [(FsCall Layer (OpStat ''/a''), None), (FsCall Base (OpStat ''/a''), None),
        (FsCall Base (OpRemoveAll ''/a''), None), (FsCall Layer (OpRemoveAll ''/a''), None)]
   \<and> trace (snd (Remove (memCache False ENOENT Hour) memRuntime ''/a''
          (start [(''/a'', fileAt (2 * Hour))] [] (3 * Hour))))
     = [(FsCall Layer (OpStat ''/a''), Some ENOENT),
        (FsCall Base (OpRemove ''/a''), None), (FsCall Layer (OpRemove ''/a''), Some ENOENT)]
   \<and> trace (snd (RemoveAll (memCache False ENOENT Hour) memRuntime ''/a''
          (start [(''/a'', fileAt (2 * Hour))] [] (3 * Hour))))
     = [(FsCall Layer (OpStat ''/a''), Some ENOENT),
        (FsCall Base (OpRemoveAll ''/a''), None), (FsCall Layer (OpRemoveAll ''/a''), None)]"
  by (simp add: mem_simps cacheStatus_def Remove_def RemoveAll_def call_simps time_simps)

text \<open>
  C3, amended: when the path is classified \<open>cacheStale\<close> or \<open>cacheMiss\<close>, \<open>Chtimes\<close>,
  \<open>Chmod\<close> and \<open>Rename\<close> first call \<open>copyToLayer\<close> and apply the verb to base only after
  it, when it returned nil, and then to the layer; \<open>Remove\<close> and \<open>RemoveAll\<close> apply the
  verb to base without a promotion, and then to the layer.
\<close>

theorem C3_promotion_before_base:
  assumes "cacheStatus u rt name s = ((st, fi, None), s1)"
    and "st = cacheStale \<or> st = cacheMiss"
  shows "performs [CopyToLayer name, FsCall Base (OpChtimes name atime mtime),
                   FsCall Layer (OpChtimes name atime mtime)] s1
           (Chtimes u rt name atime mtime s)
       \<and> performs [CopyToLayer name, FsCall Base (OpChmod name mode),
                   FsCall Layer (OpChmod name mode)] s1
           (Chmod u rt name mode s)
       \<and> performs [CopyToLayer name, FsCall Base (OpRename name newname),
                   FsCall Layer (OpRename name newname)] s1
           (Rename u rt name newname s)
       \<and> performs [FsCall Base (OpRemove name), FsCall Layer (OpRemove name)] s1
           (Remove u rt name s)
       \<and> performs [FsCall Base (OpRemoveAll name), FsCall Layer (OpRemoveAll name)] s1
           (RemoveAll u rt name s)"
  using assms(2)
    Chtimes_performs [OF assms(1), of atime mtime] Chmod_performs [OF assms(1), of mode]
    Rename_performs [OF assms(1), of newname] Remove_performs [OF assms(1)]
    RemoveAll_performs [OF assms(1)]
  by (auto simp: verb_calls_def removal_calls_def)

text \<open>
  On a missing path whose file is in base: \<open>Chtimes\<close>, \<open>Chmod\<close> and \<open>Rename\<close> promote,
  then go to base, then to the layer; with a read-only base the base's error ends them.
\<close>

theorem C3_promotion_before_base_witness:
  "fst (cacheStatus (memCache False ENOENT Hour) memRuntime ''/a''
          (start [(''/a'', fileAt 7)] [] 9)) = (cacheMiss, None, None)
   \<and> Chtimes (memCache False ENOENT Hour) memRuntime ''/a'' 5 6 (start [(''/a'', fileAt 7)] [] 9)
     = (None, snd (Chtimes (memCache False ENOENT Hour) memRuntime ''/a'' 5 6
                     (start [(''/a'', fileAt 7)] [] 9)))
   \<and> trace (snd (Chtimes (memCache False ENOENT Hour) memRuntime ''/a'' 5 6
                     (start [(''/a'', fileAt 7)] [] 9)))
     = [(FsCall Layer (OpStat ''/a''), Some ENOENT), (CopyToLayer ''/a'', None),
        (FsCall Base (OpChtimes ''/a'' 5 6), None), (FsCall Layer (OpChtimes ''/a'' 5 6), None)]
   \<and> trace (snd (Chmod (memCache True ENOENT Hour) memRuntime ''/a'' 420
                     (start [(''/a'', fileAt 7)] [] 9)))
     = [(FsCall Layer (OpStat ''/a''), Some ENOENT), (CopyToLayer ''/a'', None),
        (FsCall Base (OpChmod ''/a'' 420), Some EPERM)]
   \<and> trace (snd (Rename (memCache False ENOENT Hour) memRuntime ''/a'' ''/z''
                     (start [(''/a'', fileAt 7)] [] 9)))
     = [(FsCall Layer (OpStat ''/a''), Some ENOENT), (CopyToLayer ''/a'', None),
        (FsCall Base (OpRename ''/a'' ''/z''), None), (FsCall Layer (OpRename ''/a'' ''/z''), None)]"
  using C3_promotion_before_base [of "memCache False ENOENT Hour" memRuntime "''/a''"
      "start [(''/a'', fileAt 7)] [] 9" cacheMiss None
      "snd (cacheStatus (memCache False ENOENT Hour) memRuntime ''/a''
              (start [(''/a'', fileAt 7)] [] 9))" 5 6 420 "''/z''"]
  by (simp add: mem_simps cacheStatus_def Chtimes_def Chmod_def Rename_def call_simps time_simps)

text \<open>
  C4, as claimed: a base-side error aborts the operation with the layer left untouched.
  On a missing path \<open>Chtimes\<close> promotes before it calls base: with a read-only base the
  call to base fails with \<open>EPERM\<close> and ends the operation, and the layer, empty before,
  holds the promoted file.
\<close>

theorem C4_layer_untouched_counterexample:
  "Chtimes (memCache True ENOENT Hour) memRuntime ''/a'' 5 6 (start [(''/a'', fileAt 7)] [] 9)
     = (Some EPERM, snd (Chtimes (memCache True ENOENT Hour) memRuntime ''/a'' 5 6
                           (start [(''/a'', fileAt 7)] [] 9)))
   \<and> trace (snd (Chtimes (memCache True ENOENT Hour) memRuntime ''/a'' 5 6
                    (start [(''/a'', fileAt 7)] [] 9)))
     = [(FsCall Layer (OpStat ''/a''), Some ENOENT), (CopyToLayer ''/a'', None),
        (FsCall Base (OpChtimes ''/a'' 5 6), Some EPERM)]
   \<and> store (world (start [(''/a'', fileAt 7)] [] 9)) Layer = []
   \<and> store (world (snd (Chtimes (memCache True ENOENT Hour) memRuntime ''/a'' 5 6
                    (start [(''/a'', fileAt 7)] [] 9)))) Layer
     = [(''/a'', fileAt 7)]"
  by (simp add: mem_simps cacheStatus_def Chtimes_def call_simps time_simps)

text \<open>
  C4, amended: after a classification with nil error, each of \<open>Chtimes\<close>, \<open>Chmod\<close>,
  \<open>Rename\<close>, \<open>Remove\<close>, \<open>RemoveAll\<close> makes the calls of its cache state in their order:
  the layer alone for \<open>cacheLocal\<close>; base, then the layer, for \<open>cacheHit\<close>; for
  \<open>cacheStale\<close> and \<open>cacheMiss\<close> the promotion first for \<open>Chtimes\<close>, \<open>Chmod\<close>, \<open>Rename\<close>,
  and base, then the layer, for all five. \<open>Mkdir\<close> calls the base's \<open>Mkdir\<close>, then the
  layer's \<open>MkdirAll\<close>; \<open>MkdirAll\<close> the base's, then the layer's. In each of these
  sequences a call that returns an error is the last call made and its error is the
  result: an error of the verb in base is returned and the verb is not applied to the
  layer, which no call has changed but the promotion, where one was made.
\<close>

theorem C4_base_error_aborts:
  "(\<forall>st fi s1. cacheStatus u rt name s = ((st, fi, None), s1) \<longrightarrow>
       performs (verb_calls st name (OpChtimes name atime mtime)) s1
         (Chtimes u rt name atime mtime s)
     \<and> performs (verb_calls st name (OpChmod name mode)) s1 (Chmod u rt name mode s)
     \<and> performs (verb_calls st name (OpRename name newname)) s1 (Rename u rt name newname s)
     \<and> performs (removal_calls st (OpRemove name)) s1 (Remove u rt name s)
     \<and> performs (removal_calls st (OpRemoveAll name)) s1 (RemoveAll u rt name s))
   \<and> performs [FsCall Base (OpMkdir name perm), FsCall Layer (OpMkdirAll name perm)] s
       (Mkdir u name perm s)
   \<and> performs [FsCall Base (OpMkdirAll name perm), FsCall Layer (OpMkdirAll name perm)] s
       (MkdirAll u name perm s)
   \<and> (\<forall>cs (s0 :: ('w, 'f) machine) res c err.
        performs cs s0 res \<and> (c, Some err) \<in> set (drop (length (trace s0)) (trace (snd res))) \<longrightarrow>
        fst res = Some err \<and> last (trace (snd res)) = (c, Some err))"
proof -
  have verbs: "\<forall>st fi s1. cacheStatus u rt name s = ((st, fi, None), s1) \<longrightarrow>
       performs (verb_calls st name (OpChtimes name atime mtime)) s1
         (Chtimes u rt name atime mtime s)
     \<and> performs (verb_calls st name (OpChmod name mode)) s1 (Chmod u rt name mode s)
     \<and> performs (verb_calls st name (OpRename name newname)) s1 (Rename u rt name newname s)
     \<and> performs (removal_calls st (OpRemove name)) s1 (Remove u rt name s)
     \<and> performs (removal_calls st (OpRemoveAll name)) s1 (RemoveAll u rt name s)"
    by (simp add: Chtimes_performs Chmod_performs Rename_performs Remove_performs
        RemoveAll_performs)
  have abort: "\<forall>cs (s0 :: ('w, 'f) machine) res c err.
        performs cs s0 res \<and> (c, Some err) \<in> set (drop (length (trace s0)) (trace (snd res))) \<longrightarrow>
        fst res = Some err \<and> last (trace (snd res)) = (c, Some err)"
    using performs_abort by blast
  show ?thesis
    by (rule conjI [OF verbs conjI [OF Mkdir_performs conjI [OF MkdirAll_performs abort]]])
qed

text \<open>
  A cached and fresh path and a read-only base: \<open>Chtimes\<close> ends with the base's error and
  the layer keeps its entry; so does \<open>Mkdir\<close>, and the layer stays empty. With a writable
  base \<open>Mkdir\<close> goes on to the layer's \<open>MkdirAll\<close>.
\<close>

theorem C4_base_error_aborts_witness:
  "fst (cacheStatus (memCache True ENOENT Hour) memRuntime ''/a''
          (start [(''/a'', fileAt 7)] [(''/a'', fileAt 7)] 9)) = (cacheHit, Some (fileAt 7), None)
   \<and> Chtimes (memCache True ENOENT Hour) memRuntime ''/a'' 5 6
        (start [(''/a'', fileAt 7)] [(''/a'', fileAt 7)] 9)
     = (Some EPERM,
        \<lparr>world = world (start [(''/a'', fileAt 7)] [(''/a'', fileAt 7)] 9),
         trace = [(FsCall Layer (OpStat ''/a''), None),
                  (FsCall Base (OpChtimes ''/a'' 5 6), Some EPERM)]\<rparr>)
   \<and> Mkdir (memCache True ENOENT Hour) ''/a'' 493 (start [] [] 9)
     = (Some EPERM,
        \<lparr>world = world (start [] [] 9),
         trace = [(FsCall Base (OpMkdir ''/a'' 493), Some EPERM)]\<rparr>)
   \<and> trace (snd (Mkdir (memCache False ENOENT Hour) ''/a'' 493 (start [] [] 9)))
     = [(FsCall Base (OpMkdir ''/a'' 493), None), (FsCall Layer (OpMkdirAll ''/a'' 493), None)]
   \<and> store (world (snd (Mkdir (memCache False ENOENT Hour) ''/a'' 493 (start [] [] 9)))) Layer
     = [(''/a'', \<lparr>Size = 0, Mode = 493, ModTime = 9, IsDir = True\<rparr>)]"
  using C4_base_error_aborts [of "memCache True ENOENT Hour" memRuntime "''/a''"
      "start [(''/a'', fileAt 7)] [(''/a'', fileAt 7)] 9" 5 6 420 "''/z''" 493]
    C4_base_error_aborts [of "memCache True ENOENT Hour" memRuntime "''/a''"
      "start [] [] 9" 5 6 420 "''/z''" 493]
    C4_base_error_aborts [of "memCache False ENOENT Hour" memRuntime "''/a''"
      "start [] [] 9" 5 6 420 "''/z''" 493]
  by (simp add: mem_simps cacheStatus_def Chtimes_def Mkdir_def call_simps time_simps)

section \<open>Removing a path that the layer does not have\<close>




section \<open>Create and OpenFile with a write flag\<close>

lemma any_write_flag:
  "(flag AND writeFlags rt \<noteq> 0) =
     (flag AND O_WRONLY rt \<noteq> 0 \<or> flag AND O_RDWR rt \<noteq> 0 \<or> flag AND O_APPEND rt \<noteq> 0 \<or>
      flag AND O_CREATE rt \<noteq> 0 \<or> flag AND O_TRUNC rt \<noteq> 0)"
  by (simp add: writeFlags_def bit.conj_disj_distrib or_eq_0_iff)

lemma Create_cases:
  "(\<forall>err s1. do_Create u Base name s = (Inl err, s1) \<longrightarrow>
       Create u rt name s = ((None, Some err), s1)
     \<and> trace s1 = trace s @ [(FsCall Base (OpCreate name), Some err)])
   \<and> (\<forall>bfh s1 err s2. do_Create u Base name s = (Inr bfh, s1) \<and>
         do_Create u Layer name s1 = (Inl err, s2) \<longrightarrow>
       Create u rt name s = ((None, Some err), snd (do_Close rt bfh s2))
     \<and> trace (snd (do_Close rt bfh s2)) =
         trace s @ [(FsCall Base (OpCreate name), None), (FsCall Layer (OpCreate name), Some err),
                    (FileClose bfh, fst (do_Close rt bfh s2))])
   \<and> (\<forall>bfh s1 lfh s2. do_Create u Base name s = (Inr bfh, s1) \<and>
         do_Create u Layer name s1 = (Inr lfh, s2) \<longrightarrow>
       Create u rt name s = ((Some (UnionFile (Some bfh) (Some lfh)), None), s2))"
proof (intro conjI allI impI)
  fix err s1 assume a: "do_Create u Base name s = (Inl err, s1)"
  then show "Create u rt name s = ((None, Some err), s1)" by (simp add: Create_def)
  from a show "trace s1 = trace s @ [(FsCall Base (OpCreate name), Some err)]"
    by (auto simp: do_Create_def errOf_def dest: invoke_trace)
next
  fix bfh s1 err s2
  assume a: "do_Create u Base name s = (Inr bfh, s1) \<and> do_Create u Layer name s1 = (Inl err, s2)"
  then show "Create u rt name s = ((None, Some err), snd (do_Close rt bfh s2))"
    by (simp add: Create_def split: prod.splits)
  obtain cerr s3 where c: "do_Close rt bfh s2 = (cerr, s3)" by (cases "do_Close rt bfh s2")
  from a have "trace s1 = trace s @ [(FsCall Base (OpCreate name), None)]"
    and "trace s2 = trace s1 @ [(FsCall Layer (OpCreate name), Some err)]"
    by (auto simp: do_Create_def errOf_def dest: invoke_trace)
  moreover from c have "trace s3 = trace s2 @ [(FileClose bfh, cerr)]"
    by (auto simp: do_Close_def dest: invoke_trace)
  ultimately show "trace (snd (do_Close rt bfh s2)) =
         trace s @ [(FsCall Base (OpCreate name), None), (FsCall Layer (OpCreate name), Some err),
                    (FileClose bfh, fst (do_Close rt bfh s2))]"
    using c by simp
next
  fix bfh s1 lfh s2
  assume "do_Create u Base name s = (Inr bfh, s1) \<and> do_Create u Layer name s1 = (Inr lfh, s2)"
  then show "Create u rt name s = ((Some (UnionFile (Some bfh) (Some lfh)), None), s2)"
    by (simp add: Create_def)
qed

lemma OpenFile_write:
  assumes c: "cacheStatus u rt name s = ((st, fi, None), s1)"
    and p: "promoted u rt name st s1 s2"
    and w: "flag AND writeFlags rt \<noteq> 0"
  shows "OpenFile u rt name flag perm s =
     (case do_OpenFile u Base name flag perm s2 of
        (Inl err, s3) \<Rightarrow> ((None, Some err), s3)
      | (Inr bfi, s3) \<Rightarrow>
          (case do_OpenFile u Layer name flag perm s3 of
             (Inl err, s4) \<Rightarrow> ((None, Some err), snd (do_Close rt bfi s4))
           | (Inr lfi, s4) \<Rightarrow> ((Some (UnionFile (Some bfi) (Some lfi)), None), s4)))"
  using c p w
  by (cases st) (simp_all add: OpenFile_def promoted_def split: prod.splits sum.splits)

lemma OpenFile_cases:
  assumes c: "cacheStatus u rt name s = ((st, fi, None), s1)"
    and p: "promoted u rt name st s1 s2"
    and w: "flag AND writeFlags rt \<noteq> 0"
  shows "(\<forall>err s3. do_OpenFile u Base name flag perm s2 = (Inl err, s3) \<longrightarrow>
       OpenFile u rt name flag perm s = ((None, Some err), s3)
     \<and> trace s3 = trace s2 @ [(FsCall Base (OpOpenFile name flag perm), Some err)])
   \<and> (\<forall>bfi s3 err s4. do_OpenFile u Base name flag perm s2 = (Inr bfi, s3) \<and>
         do_OpenFile u Layer name flag perm s3 = (Inl err, s4) \<longrightarrow>
       OpenFile u rt name flag perm s = ((None, Some err), snd (do_Close rt bfi s4))
     \<and> trace (snd (do_Close rt bfi s4)) =
         trace s2 @ [(FsCall Base (OpOpenFile name flag perm), None),
                     (FsCall Layer (OpOpenFile name flag perm), Some err),
                     (FileClose bfi, fst (do_Close rt bfi s4))])
   \<and> (\<forall>bfi s3 lfi s4. do_OpenFile u Base name flag perm s2 = (Inr bfi, s3) \<and>
         do_OpenFile u Layer name flag perm s3 = (Inr lfi, s4) \<longrightarrow>
       OpenFile u rt name flag perm s = ((Some (UnionFile (Some bfi) (Some lfi)), None), s4))"
proof (intro conjI allI impI)
  fix err s3 assume a: "do_OpenFile u Base name flag perm s2 = (Inl err, s3)"
  then show "OpenFile u rt name flag perm s = ((None, Some err), s3)"
    by (simp add: OpenFile_write [OF c p w])
  from a show "trace s3 = trace s2 @ [(FsCall Base (OpOpenFile name flag perm), Some err)]"
    by (auto simp: do_OpenFile_def errOf_def dest: invoke_trace)
next
  fix bfi s3 err s4
  assume a: "do_OpenFile u Base name flag perm s2 = (Inr bfi, s3) \<and>
         do_OpenFile u Layer name flag perm s3 = (Inl err, s4)"
  then show "OpenFile u rt name flag perm s = ((None, Some err), snd (do_Close rt bfi s4))"
    by (simp add: OpenFile_write [OF c p w])
  obtain cerr s5 where cl: "do_Close rt bfi s4 = (cerr, s5)" by (cases "do_Close rt bfi s4")
  from a have "trace s3 = trace s2 @ [(FsCall Base (OpOpenFile name flag perm), None)]"
    and "trace s4 = trace s3 @ [(FsCall Layer (OpOpenFile name flag perm), Some err)]"
    by (auto simp: do_OpenFile_def errOf_def dest: invoke_trace)
  moreover from cl have "trace s5 = trace s4 @ [(FileClose bfi, cerr)]"
    by (auto simp: do_Close_def dest: invoke_trace)
  ultimately show "trace (snd (do_Close rt bfi s4)) =
         trace s2 @ [(FsCall Base (OpOpenFile name flag perm), None),
                     (FsCall Layer (OpOpenFile name flag perm), Some err),
                     (FileClose bfi, fst (do_Close rt bfi s4))]"
    using cl by simp
next
  fix bfi s3 lfi s4
  assume "do_OpenFile u Base name flag perm s2 = (Inr bfi, s3) \<and>
         do_OpenFile u Layer name flag perm s3 = (Inr lfi, s4)"
  then show "OpenFile u rt name flag perm s = ((Some (UnionFile (Some bfi) (Some lfi)), None), s4)"
    by (simp add: OpenFile_write [OF c p w])
qed

text \<open>
  C5, as claimed: when the open in base fails, \<open>OpenFile\<close> with a write flag aborts
  without touching the layer. On a missing path \<open>OpenFile\<close> promotes before it opens:
  with a read-only base and the flag \<open>O_WRONLY\<close> the open in base fails with \<open>EPERM\<close>,
  and the layer, empty before, holds the promoted file.
\<close>

theorem C5_layer_untouched_counterexample:
  "OpenFile (memCache True ENOENT Hour) memRuntime ''/a'' 1 420 (start [(''/a'', fileAt 7)] [] 9)
     = ((None, Some EPERM), snd (OpenFile (memCache True ENOENT Hour) memRuntime ''/a'' 1 420
                                   (start [(''/a'', fileAt 7)] [] 9)))
   \<and> trace (snd (OpenFile (memCache True ENOENT Hour) memRuntime ''/a'' 1 420
                    (start [(''/a'', fileAt 7)] [] 9)))
     = [(FsCall Layer (OpStat ''/a''), Some ENOENT), (CopyToLayer ''/a'', None),
        (FsCall Base (OpOpenFile ''/a'' 1 420), Some EPERM)]
   \<and> store (world (start [(''/a'', fileAt 7)] [] 9)) Layer = []
   \<and> store (world (snd (OpenFile (memCache True ENOENT Hour) memRuntime ''/a'' 1 420
                    (start [(''/a'', fileAt 7)] [] 9)))) Layer
     = [(''/a'', fileAt 7)]"
  by (simp add: mem_simps cacheStatus_def OpenFile_def writeFlags_def call_simps time_simps)

text \<open>
  C5, amended. \<open>Create\<close>: when the create in base fails, its error is returned and no
  other call is made; when it succeeds and the create in the layer fails, the base's
  handle is closed and then the layer's error returned; when both succeed, the result is
  the \<open>UnionFile\<close> of the two handles. \<open>OpenFile\<close> with any of the flags \<open>O_WRONLY\<close>,
  \<open>O_RDWR\<close>, \<open>O_APPEND\<close>, \<open>O_CREATE\<close>, \<open>O_TRUNC\<close>, once the path is classified and, if
  \<open>cacheStale\<close> or \<open>cacheMiss\<close>, promoted: the same three cases for the opens in base and
  layer; when the open in base fails the file is not opened in the layer, and nothing is
  called after the failing open.
\<close>

theorem C5_write_open_both:
  "((\<forall>err s1. do_Create u Base name s = (Inl err, s1) \<longrightarrow>
       Create u rt name s = ((None, Some err), s1)
     \<and> trace s1 = trace s @ [(FsCall Base (OpCreate name), Some err)])
   \<and> (\<forall>bfh s1 err s2. do_Create u Base name s = (Inr bfh, s1) \<and>
         do_Create u Layer name s1 = (Inl err, s2) \<longrightarrow>
       Create u rt name s = ((None, Some err), snd (do_Close rt bfh s2))
     \<and> trace (snd (do_Close rt bfh s2)) =
         trace s @ [(FsCall Base (OpCreate name), None), (FsCall Layer (OpCreate name), Some err),
                    (FileClose bfh, fst (do_Close rt bfh s2))])
   \<and> (\<forall>bfh s1 lfh s2. do_Create u Base name s = (Inr bfh, s1) \<and>
         do_Create u Layer name s1 = (Inr lfh, s2) \<longrightarrow>
       Create u rt name s = ((Some (UnionFile (Some bfh) (Some lfh)), None), s2)))
   \<and> (\<forall>st fi s1 s2.
        cacheStatus u rt name s = ((st, fi, None), s1) \<and> promoted u rt name st s1 s2 \<and>
        (flag AND O_WRONLY rt \<noteq> 0 \<or> flag AND O_RDWR rt \<noteq> 0 \<or> flag AND O_APPEND rt \<noteq> 0 \<or>
         flag AND O_CREATE rt \<noteq> 0 \<or> flag AND O_TRUNC rt \<noteq> 0) \<longrightarrow>
        (\<forall>err s3. do_OpenFile u Base name flag perm s2 = (Inl err, s3) \<longrightarrow>
           OpenFile u rt name flag perm s = ((None, Some err), s3)
         \<and> trace s3 = trace s2 @ [(FsCall Base (OpOpenFile name flag perm), Some err)])
      \<and> (\<forall>bfi s3 err s4. do_OpenFile u Base name flag perm s2 = (Inr bfi, s3) \<and>
             do_OpenFile u Layer name flag perm s3 = (Inl err, s4) \<longrightarrow>
           OpenFile u rt name flag perm s = ((None, Some err), snd (do_Close rt bfi s4))
         \<and> trace (snd (do_Close rt bfi s4)) =
             trace s2 @ [(FsCall Base (OpOpenFile name flag perm), None),
                         (FsCall Layer (OpOpenFile name flag perm), Some err),
                         (FileClose bfi, fst (do_Close rt bfi s4))])
      \<and> (\<forall>bfi s3 lfi s4. do_OpenFile u Base name flag perm s2 = (Inr bfi, s3) \<and>
             do_OpenFile u Layer name flag perm s3 = (Inr lfi, s4) \<longrightarrow>
           OpenFile u rt name flag perm s = ((Some (UnionFile (Some bfi) (Some lfi)), None), s4)))"
proof (rule conjI [OF Create_cases], intro allI impI)
  fix st fi s1 s2
  assume a: "cacheStatus u rt name s = ((st, fi, None), s1) \<and> promoted u rt name st s1 s2 \<and>
        (flag AND O_WRONLY rt \<noteq> 0 \<or> flag AND O_RDWR rt \<noteq> 0 \<or> flag AND O_APPEND rt \<noteq> 0 \<or>
         flag AND O_CREATE rt \<noteq> 0 \<or> flag AND O_TRUNC rt \<noteq> 0)"
  then have w: "flag AND writeFlags rt \<noteq> 0" by (simp only: any_write_flag)
  from a have c: "cacheStatus u rt name s = ((st, fi, None), s1)"
    and p: "promoted u rt name st s1 s2" by simp_all
  show "(\<forall>err s3. do_OpenFile u Base name flag perm s2 = (Inl err, s3) \<longrightarrow>
           OpenFile u rt name flag perm s = ((None, Some err), s3)
         \<and> trace s3 = trace s2 @ [(FsCall Base (OpOpenFile name flag perm), Some err)])
      \<and> (\<forall>bfi s3 err s4. do_OpenFile u Base name flag perm s2 = (Inr bfi, s3) \<and>
             do_OpenFile u Layer name flag perm s3 = (Inl err, s4) \<longrightarrow>
           OpenFile u rt name flag perm s = ((None, Some err), snd (do_Close rt bfi s4))
         \<and> trace (snd (do_Close rt bfi s4)) =
             trace s2 @ [(FsCall Base (OpOpenFile name flag perm), None),
                         (FsCall Layer (OpOpenFile name flag perm), Some err),
                         (FileClose bfi, fst (do_Close rt bfi s4))])
      \<and> (\<forall>bfi s3 lfi s4. do_OpenFile u Base name flag perm s2 = (Inr bfi, s3) \<and>
             do_OpenFile u Layer name flag perm s3 = (Inr lfi, s4) \<longrightarrow>
           OpenFile u rt name flag perm s = ((Some (UnionFile (Some bfi) (Some lfi)), None), s4))"
    by (rule OpenFile_cases [OF c p w])
qed

text \<open>
  Three runs. \<open>Create\<close> with a read-only layer: the base's handle is closed and the
  layer's error returned. \<open>OpenFile\<close> with \<open>O_WRONLY\<close> on a missing path and a read-only
  base: promotion, then the base's error, and no open in the layer. \<open>OpenFile\<close> with
  \<open>O_RDWR\<close> on a cached path: a \<open>UnionFile\<close> of both handles.
\<close>

theorem C5_write_open_both_witness:
  "fst (Create \<lparr>base = memFs Base False ENOENT, layer = memFs Layer True ENOENT, cacheTime = 0\<rparr>
          memRuntime ''/n'' (start [] [] 9)) = (None, Some EPERM)
   \<and> trace (snd (Create \<lparr>base = memFs Base False ENOENT, layer = memFs Layer True ENOENT,
                          cacheTime = 0\<rparr> memRuntime ''/n'' (start [] [] 9)))
     = [(FsCall Base (OpCreate ''/n''), None), (FsCall Layer (OpCreate ''/n''), Some EPERM),
        (FileClose (Base, ''/n''), None)]
   \<and> fst (OpenFile (memCache True ENOENT Hour) memRuntime ''/a'' 1 420
            (start [(''/a'', fileAt 7)] [] 9)) = (None, Some EPERM)
   \<and> trace (snd (OpenFile (memCache True ENOENT Hour) memRuntime ''/a'' 1 420
            (start [(''/a'', fileAt 7)] [] 9)))
     = [(FsCall Layer (OpStat ''/a''), Some ENOENT), (CopyToLayer ''/a'', None),
        (FsCall Base (OpOpenFile ''/a'' 1 420), Some EPERM)]
   \<and> OpenFile (memCache False ENOENT 0) memRuntime ''/a'' 2 420
        (start [(''/a'', fileAt 7)] [(''/a'', fileAt 7)] 9)
     = ((Some (UnionFile (Some (Base, ''/a'')) (Some (Layer, ''/a''))), None),
        \<lparr>world = world (start [(''/a'', fileAt 7)] [(''/a'', fileAt 7)] 9),
         trace = [(FsCall Layer (OpStat ''/a''), None), (FsCall Base (OpOpenFile ''/a'' 2 420), None),
                  (FsCall Layer (OpOpenFile ''/a'' 2 420), None)]\<rparr>)"
proof -
  let ?U = "\<lparr>base = memFs Base False ENOENT, layer = memFs Layer True ENOENT, cacheTime = 0\<rparr>"
  let ?S = "start [] [] 9 :: (MemWorld, target \<times> string) machine"
  let ?S1 = "snd (do_Create ?U Base ''/n'' ?S)"
  let ?S2 = "snd (do_Create ?U Layer ''/n'' ?S1)"
  have h1: "do_Create ?U Base ''/n'' ?S = (Inr (Base, ''/n''), ?S1) \<and>
            do_Create ?U Layer ''/n'' ?S1 = (Inl EPERM, ?S2)"
    by (simp add: mem_simps call_simps prod_eq_iff)
  from C5_write_open_both [of ?U "''/n''" ?S memRuntime 2 420] h1
  have c1: "Create ?U memRuntime ''/n'' ?S
        = ((None, Some EPERM), snd (do_Close memRuntime (Base, ''/n'') ?S2))
      \<and> trace (snd (do_Close memRuntime (Base, ''/n'') ?S2))
        = trace ?S @ [(FsCall Base (OpCreate ''/n''), None),
                      (FsCall Layer (OpCreate ''/n''), Some EPERM),
                      (FileClose (Base, ''/n''), fst (do_Close memRuntime (Base, ''/n'') ?S2))]"
    by blast
  have e1: "trace ?S = [] \<and> fst (do_Close memRuntime (Base, ''/n'') ?S2) = None"
    by (simp add: mem_simps call_simps)
  let ?V = "memCache True ENOENT Hour"
  let ?T = "start [(''/a'', fileAt 7)] [] 9 :: (MemWorld, target \<times> string) machine"
  let ?T1 = "snd (cacheStatus ?V memRuntime ''/a'' ?T)"
  let ?T2 = "snd (copyToLayer ?V memRuntime ''/a'' ?T1)"
  let ?T3 = "snd (do_OpenFile ?V Base ''/a'' 1 420 ?T2)"
  have h2: "cacheStatus ?V memRuntime ''/a'' ?T = ((cacheMiss, None, None), ?T1) \<and>
            promoted ?V memRuntime ''/a'' cacheMiss ?T1 ?T2 \<and>
            (1 AND O_WRONLY memRuntime \<noteq> 0 \<or> 1 AND O_RDWR memRuntime \<noteq> 0 \<or>
             1 AND O_APPEND memRuntime \<noteq> 0 \<or> 1 AND O_CREATE memRuntime \<noteq> 0 \<or>
             1 AND O_TRUNC memRuntime \<noteq> 0)"
    by (simp add: mem_simps cacheStatus_def promoted_def call_simps time_simps prod_eq_iff)
  have h3: "do_OpenFile ?V Base ''/a'' 1 420 ?T2 = (Inl EPERM, ?T3)"
    by (simp add: mem_simps call_simps prod_eq_iff)
  have c2: "OpenFile ?V memRuntime ''/a'' 1 420 ?T = ((None, Some EPERM), ?T3)
      \<and> trace ?T3 = trace ?T2 @ [(FsCall Base (OpOpenFile ''/a'' 1 420), Some EPERM)]"
    by (rule C5_write_open_both [of ?V "''/a''" ?T memRuntime 1 420, THEN conjunct2,
          rule_format, OF h2, THEN conjunct1, rule_format, OF h3])
  have e2: "trace ?T2 = [(FsCall Layer (OpStat ''/a''), Some ENOENT), (CopyToLayer ''/a'', None)]"
    by (simp add: mem_simps cacheStatus_def call_simps time_simps)
  have c3: "OpenFile (memCache False ENOENT 0) memRuntime ''/a'' 2 420
        (start [(''/a'', fileAt 7)] [(''/a'', fileAt 7)] 9)
     = ((Some (UnionFile (Some (Base, ''/a'')) (Some (Layer, ''/a''))), None),
        \<lparr>world = world (start [(''/a'', fileAt 7)] [(''/a'', fileAt 7)] 9),
         trace = [(FsCall Layer (OpStat ''/a''), None), (FsCall Base (OpOpenFile ''/a'' 2 420), None),
                  (FsCall Layer (OpOpenFile ''/a'' 2 420), None)]\<rparr>)"
    by (simp add: mem_simps cacheStatus_def OpenFile_def writeFlags_def call_simps time_simps)
  from c1 e1 c2 e2 c3 show ?thesis by simp
qed

section \<open>Open on a directory\<close>

lemma Open_dirs_eq:
  "do_Open u Base name s1 = (b, s2) \<Longrightarrow> do_Open u Layer name s2 = (l, s3) \<Longrightarrow>
   Open_dirs u name s1 = (dirHandle b l, s3)"
  by (cases b; cases l) (simp_all add: Open_dirs_def dirHandle_def errOf_def)

text \<open>
  C6, as claimed: \<open>Open\<close> on a directory returns a handle wrapping both directory
  streams also on a miss. On a miss (the directory is in base only) \<open>Open\<close> returns the
  base's own handle, not a \<open>UnionFile\<close>, and does not open the layer.
\<close>

theorem C6_Open_miss_counterexample:
  "fst (cacheStatus (memCache False ENOENT Hour) memRuntime ''/d''
          (start [(''/d'', dirAt 7)] [] 9)) = (cacheMiss, None, None)
   \<and> Open (memCache False ENOENT Hour) memRuntime ''/d'' (start [(''/d'', dirAt 7)] [] 9)
     = (Return (Some (StoreFile (Base, ''/d'')), None),
        \<lparr>world = world (start [(''/d'', dirAt 7)] [] 9),
         trace = [(FsCall Layer (OpStat ''/d''), Some ENOENT), (FsCall Base (OpStat ''/d''), None),
                  (FsCall Base (OpOpen ''/d''), None)]\<rparr>)"
  by (simp add: mem_simps cacheStatus_def Open_def fileResult_def call_simps time_simps)

text \<open>
  C6, amended: for a directory classified \<open>cacheHit\<close> or \<open>cacheStale\<close>, \<open>Open\<close> opens
  it in base and then in the layer and returns a \<open>UnionFile\<close> of the two handles, also
  when one of the opens failed (that handle is then nil), and the layer's error when both
  failed. For a path classified \<open>cacheMiss\<close> that is a directory in base, \<open>Open\<close> returns
  what the base's open returns, and the only calls after the classification are the
  base's \<open>Stat\<close> and open.
\<close>

theorem C6_Open_directory:
  "(\<forall>st f s1 b s2 l s3.
      cacheStatus u rt name s = ((st, Some f, None), s1) \<and> (st = cacheHit \<or> st = cacheStale) \<and>
      IsDir f \<and> do_Open u Base name s1 = (b, s2) \<and> do_Open u Layer name s2 = (l, s3) \<longrightarrow>
      Open u rt name s = (Return (dirHandle b l), s3))
   \<and> (\<forall>fi s1 bfi s2 r s3.
      cacheStatus u rt name s = ((cacheMiss, fi, None), s1) \<and>
      do_Stat u Base name s1 = (Inr bfi, s2) \<and> IsDir bfi \<and> do_Open u Base name s2 = (r, s3) \<longrightarrow>
      Open u rt name s = (Return (fileResult r), s3)
    \<and> trace s3 = trace s1 @ [(FsCall Base (OpStat name), None), (FsCall Base (OpOpen name), errOf r)])"
proof -
  have a: "Open u rt name s = (Return (dirHandle b l), s3)"
    if "cacheStatus u rt name s = ((st, Some f, None), s1) \<and> (st = cacheHit \<or> st = cacheStale) \<and>
      IsDir f \<and> do_Open u Base name s1 = (b, s2) \<and> do_Open u Layer name s2 = (l, s3)"
    for st f s1 b s2 l s3
  proof -
    from that have "Open_dirs u name s1 = (dirHandle b l, s3)" by (simp add: Open_dirs_eq)
    with that show ?thesis by (auto simp: Open_def)
  qed
  have b: "Open u rt name s = (Return (fileResult r), s3)
    \<and> trace s3 = trace s1 @ [(FsCall Base (OpStat name), None), (FsCall Base (OpOpen name), errOf r)]"
    if "cacheStatus u rt name s = ((cacheMiss, fi, None), s1) \<and>
      do_Stat u Base name s1 = (Inr bfi, s2) \<and> IsDir bfi \<and> do_Open u Base name s2 = (r, s3)"
    for fi s1 bfi s2 r s3
    using that
    by (auto simp: Open_def do_Stat_def do_Open_def invoke_def errOf_def split: prod.splits)
  from a b show ?thesis by blast
qed

text \<open>
  Three runs on a cached directory, the third layer refusing every \<open>Open\<close>: both opens
  succeed; the open in the layer fails and a handle on base alone is returned; both
  opens fail and the layer's error is returned.
\<close>

theorem C6_Open_directory_witness:
  "Open (memCache False ENOENT 0) memRuntime ''/d'' (start [(''/d'', dirAt 7)] [(''/d'', dirAt 7)] 9)
     = (Return (Some (UnionFile (Some (Base, ''/d'')) (Some (Layer, ''/d''))), None),
        \<lparr>world = world (start [(''/d'', dirAt 7)] [(''/d'', dirAt 7)] 9),
         trace = [(FsCall Layer (OpStat ''/d''), None), (FsCall Base (OpOpen ''/d''), None),
                  (FsCall Layer (OpOpen ''/d''), None)]\<rparr>)
   \<and> fst (Open \<lparr>base = memFs Base False ENOENT,
                layer = (memFs Layer False ENOENT)\<lparr>Fs_Open := (\<lambda>name w. (Inl EPERM, w))\<rparr>,
                cacheTime = 0\<rparr> memRuntime ''/d''
            (start [(''/d'', dirAt 7)] [(''/d'', dirAt 7)] 9))
     = Return (Some (UnionFile (Some (Base, ''/d'')) None), None)
   \<and> fst (Open \<lparr>base = memFs Base False ENOENT,
                layer = (memFs Layer False ENOENT)\<lparr>Fs_Open := (\<lambda>name w. (Inl EPERM, w))\<rparr>,
                cacheTime = 0\<rparr> memRuntime ''/d''
            (start [] [(''/d'', dirAt 7)] 9))
     = Return (None, Some EPERM)"
proof -
  let ?U = "memCache False ENOENT 0"
  let ?S = "start [(''/d'', dirAt 7)] [(''/d'', dirAt 7)] 9 :: (MemWorld, target \<times> string) machine"
  let ?S1 = "\<lparr>world = world ?S, trace = [(FsCall Layer (OpStat ''/d''), None)]\<rparr>"
  let ?S2 = "\<lparr>world = world ?S, trace = [(FsCall Layer (OpStat ''/d''), None),
               (FsCall Base (OpOpen ''/d''), None)]\<rparr>"
  let ?S3 = "\<lparr>world = world ?S, trace = [(FsCall Layer (OpStat ''/d''), None),
               (FsCall Base (OpOpen ''/d''), None), (FsCall Layer (OpOpen ''/d''), None)]\<rparr>"
  have h1: "cacheStatus ?U memRuntime ''/d'' ?S = ((cacheHit, Some (dirAt 7), None), ?S1) \<and>
      (cacheHit = cacheHit \<or> cacheHit = cacheStale) \<and> IsDir (dirAt 7) \<and>
      do_Open ?U Base ''/d'' ?S1 = (Inr (Base, ''/d''), ?S2) \<and>
      do_Open ?U Layer ''/d'' ?S2 = (Inr (Layer, ''/d''), ?S3)"
    by (simp add: mem_simps cacheStatus_def call_simps time_simps)
  have c1: "Open ?U memRuntime ''/d'' ?S
      = (Return (dirHandle (Inr (Base, ''/d'')) (Inr (Layer, ''/d''))), ?S3)"
    by (rule C6_Open_directory [of ?U memRuntime "''/d''" ?S, THEN conjunct1, rule_format, OF h1])
  let ?V = "\<lparr>base = memFs Base False ENOENT,
              layer = (memFs Layer False ENOENT)\<lparr>Fs_Open := (\<lambda>name w. (Inl EPERM, w))\<rparr>,
              cacheTime = 0\<rparr>"
  let ?L2 = "\<lparr>world = world ?S, trace = [(FsCall Layer (OpStat ''/d''), None),
               (FsCall Base (OpOpen ''/d''), None), (FsCall Layer (OpOpen ''/d''), Some EPERM)]\<rparr>"
  have h2: "cacheStatus ?V memRuntime ''/d'' ?S = ((cacheHit, Some (dirAt 7), None), ?S1) \<and>
      (cacheHit = cacheHit \<or> cacheHit = cacheStale) \<and> IsDir (dirAt 7) \<and>
      do_Open ?V Base ''/d'' ?S1 = (Inr (Base, ''/d''), ?S2) \<and>
      do_Open ?V Layer ''/d'' ?S2 = (Inl EPERM, ?L2)"
    by (simp add: mem_simps cacheStatus_def call_simps time_simps)
  have c2: "Open ?V memRuntime ''/d'' ?S = (Return (dirHandle (Inr (Base, ''/d'')) (Inl EPERM)), ?L2)"
    by (rule C6_Open_directory [of ?V memRuntime "''/d''" ?S, THEN conjunct1, rule_format, OF h2])
  let ?T = "start [] [(''/d'', dirAt 7)] 9 :: (MemWorld, target \<times> string) machine"
  let ?T1 = "\<lparr>world = world ?T, trace = [(FsCall Layer (OpStat ''/d''), None)]\<rparr>"
  let ?T2 = "\<lparr>world = world ?T, trace = [(FsCall Layer (OpStat ''/d''), None),
               (FsCall Base (OpOpen ''/d''), Some ENOENT)]\<rparr>"
  let ?T3 = "\<lparr>world = world ?T, trace = [(FsCall Layer (OpStat ''/d''), None),
               (FsCall Base (OpOpen ''/d''), Some ENOENT),
               (FsCall Layer (OpOpen ''/d''), Some EPERM)]\<rparr>"
  have h3: "cacheStatus ?V memRuntime ''/d'' ?T = ((cacheHit, Some (dirAt 7), None), ?T1) \<and>
      (cacheHit = cacheHit \<or> cacheHit = cacheStale) \<and> IsDir (dirAt 7) \<and>
      do_Open ?V Base ''/d'' ?T1 = (Inl ENOENT, ?T2) \<and>
      do_Open ?V Layer ''/d'' ?T2 = (Inl EPERM, ?T3)"
    by (simp add: mem_simps cacheStatus_def call_simps time_simps)
  have c3: "Open ?V memRuntime ''/d'' ?T = (Return (dirHandle (Inl ENOENT) (Inl EPERM)), ?T3)"
    by (rule C6_Open_directory [of ?V memRuntime "''/d''" ?T, THEN conjunct1, rule_format, OF h3])
  from c1 c2 c3 show ?thesis by (simp add: dirHandle_def)
qed

section \<open>The watcher goes on after a failure\<close>

lemma monitor_loop_Cons:
  "monitor_loop u rt (m # ms) s = monitor_loop u rt ms (snd (monitor_select u rt m s))"
  using monitor_select_no_panic [of u rt m s]
  by (cases "monitor_select u rt m s") (auto split: go.splits)

lemma monitor_loop_Waiting: "fst (monitor_loop u rt ms s) = Waiting"
  by (induction ms arbitrary: s) (simp_all add: monitor_loop_Cons del: monitor_loop.simps(2))

text \<open>
  C8. For an event with the bit \<open>fsnotify.Write\<close> the watcher classifies the path. When
  the classification returns an error it logs it. When the state is \<open>cacheLocal\<close>,
  \<open>cacheStale\<close> or \<open>cacheHit\<close> and the metadata is not of a directory, it calls
  \<open>copyToLayer\<close> and logs the error, if any. In every case the loop goes on with the next
  message: after any sequence of messages the goroutine is waiting for the next one.
  Only when \<open>fsnotify.NewWatcher\<close> fails does \<open>monitor\<close> log and return without starting
  the loop; otherwise the loop runs.
\<close>

theorem C8_watcher:
  "(Op ev AND fsnotify_Write = fsnotify_Write \<longrightarrow>
      (\<forall>st fi err s1. cacheStatus u rt (Name ev) s = ((st, fi, Some err), s1) \<longrightarrow>
         monitor_select u rt (FromEvents ev) s =
           (Return (), logPrintln ''[MonCacheOnReadFs] Cache status error:'' err s1))
    \<and> (\<forall>st f s1 r s2. cacheStatus u rt (Name ev) s = ((st, Some f, None), s1) \<and>
         (st = cacheLocal \<or> st = cacheStale \<or> st = cacheHit) \<and> \<not> IsDir f \<and>
         copyToLayer u rt (Name ev) s1 = (r, s2) \<longrightarrow>
         monitor_select u rt (FromEvents ev) s =
           (Return (), case r of None \<Rightarrow> s2
                       | Some err \<Rightarrow> logPrintln ''[MonCacheOnReadFs] Cache error:'' err s2)))
   \<and> monitor_loop u rt (m # ms) s = monitor_loop u rt ms (snd (monitor_select u rt m s))
   \<and> fst (monitor_loop u rt ms s) = Waiting
   \<and> (\<forall>err w'. fsnotify_NewWatcher rt (world s) = (Some err, w') \<longrightarrow>
        monitor u rt ms s =
          (NotStarted, \<lparr>world = w', trace = trace s @ [(NewWatcher, Some err),
             (LogPrintln ''[MonCacheOnReadFs] NewWatcher error:'' err, None)]\<rparr>))
   \<and> (\<forall>w'. fsnotify_NewWatcher rt (world s) = (None, w') \<longrightarrow>
        monitor u rt ms s =
          monitor_loop u rt ms \<lparr>world = w', trace = trace s @ [(NewWatcher, None)]\<rparr>)"
proof -
  have a: "monitor_select u rt (FromEvents ev) s =
           (Return (), logPrintln ''[MonCacheOnReadFs] Cache status error:'' err s1)"
    if "Op ev AND fsnotify_Write = fsnotify_Write"
      and "cacheStatus u rt (Name ev) s = ((st, fi, Some err), s1)" for st fi err s1
    using that by (simp add: monitor_select_def)
  have b: "monitor_select u rt (FromEvents ev) s =
           (Return (), case r of None \<Rightarrow> s2
                       | Some err \<Rightarrow> logPrintln ''[MonCacheOnReadFs] Cache error:'' err s2)"
    if "Op ev AND fsnotify_Write = fsnotify_Write"
      and "cacheStatus u rt (Name ev) s = ((st, Some f, None), s1) \<and>
         (st = cacheLocal \<or> st = cacheStale \<or> st = cacheHit) \<and> \<not> IsDir f \<and>
         copyToLayer u rt (Name ev) s1 = (r, s2)" for st f s1 r s2
    using that by (cases r) (auto simp: monitor_select_def)
  have c: "monitor u rt ms s =
          (NotStarted, \<lparr>world = w', trace = trace s @ [(NewWatcher, Some err),
             (LogPrintln ''[MonCacheOnReadFs] NewWatcher error:'' err, None)]\<rparr>)"
    if "fsnotify_NewWatcher rt (world s) = (Some err, w')" for err w'
    using that by (simp add: monitor_def invoke_def logPrintln_def)
  have d: "monitor u rt ms s =
          monitor_loop u rt ms \<lparr>world = w', trace = trace s @ [(NewWatcher, None)]\<rparr>"
    if "fsnotify_NewWatcher rt (world s) = (None, w')" for w'
    using that by (simp add: monitor_def invoke_def)
  from a b c d monitor_loop_Cons [of u rt m ms s] monitor_loop_Waiting [of u rt ms s]
  show ?thesis by blast
qed

text \<open>
  A write event for a cached file that base has in a newer version: the file is promoted
  again. A sequence of five messages, of which the first fails in the classification and
  the last in the promotion: all are handled and the goroutine waits for the next. A
  runtime whose \<open>NewWatcher\<close> fails: \<open>monitor\<close> logs and returns.
\<close>

theorem C8_watcher_witness:
  "Op (Event ''/c'' 2) AND fsnotify_Write = fsnotify_Write
   \<and> fst (monitor_select (memCache False (PathError ''stat'' ''/x'' ErrNotExist) Hour) memRuntime
       (FromEvents (Event ''/c'' 2))
       (start [(''/c'', fileAt (3 * Hour))] [(''/c'', fileAt 0), (''/gone'', fileAt 0)] (4 * Hour)))
     = Return ()
   \<and> store (world (snd (monitor_select
       (memCache False (PathError ''stat'' ''/x'' ErrNotExist) Hour) memRuntime
       (FromEvents (Event ''/c'' 2))
       (start [(''/c'', fileAt (3 * Hour))] [(''/c'', fileAt 0), (''/gone'', fileAt 0)]
          (4 * Hour))))) Layer
     = [(''/c'', fileAt (3 * Hour)), (''/gone'', fileAt 0)]
   \<and> fst (monitor (memCache False (PathError ''stat'' ''/x'' ErrNotExist) Hour) memRuntime
       [FromEvents (Event ''/x'' 2), FromErrors (OtherError ''overflow''),
        FromEvents (Event ''/c'' 2), FromEvents (Event ''/c'' 1), FromEvents (Event ''/gone'' 18)]
       (start [(''/c'', fileAt (3 * Hour))] [(''/c'', fileAt 0), (''/gone'', fileAt 0)] (4 * Hour)))
     = Waiting
   \<and> trace (snd (monitor (memCache False (PathError ''stat'' ''/x'' ErrNotExist) Hour) memRuntime
       [FromEvents (Event ''/x'' 2), FromErrors (OtherError ''overflow''),
        FromEvents (Event ''/c'' 2), FromEvents (Event ''/c'' 1), FromEvents (Event ''/gone'' 18)]
       (start [(''/c'', fileAt (3 * Hour))] [(''/c'', fileAt 0), (''/gone'', fileAt 0)] (4 * Hour))))
     = [(NewWatcher, None),
        (FsCall Layer (OpStat ''/x''), Some (PathError ''stat'' ''/x'' ErrNotExist)),
        (LogPrintln ''[MonCacheOnReadFs] Cache status error:''
           (PathError ''stat'' ''/x'' ErrNotExist), None),
        (LogPrintln ''[MonCacheOnReadFs] Watcher error:'' (OtherError ''overflow''), None),
        (FsCall Layer (OpStat ''/c''), None), (FsCall Base (OpStat ''/c''), None),
        (CopyToLayer ''/c'', None),
        (FsCall Layer (OpStat ''/gone''), None), (FsCall Base (OpStat ''/gone''), Some ENOENT),
        (CopyToLayer ''/gone'', Some ENOENT),
        (LogPrintln ''[MonCacheOnReadFs] Cache error:'' ENOENT, None)]
   \<and> monitor (memCache False ENOENT Hour)
       (memRuntime\<lparr>fsnotify_NewWatcher := (\<lambda>w. (Some (OtherError ''too many open files''), w))\<rparr>)
       [FromEvents (Event ''/c'' 2)] (start [] [] 0)
     = (NotStarted,
        \<lparr>world = world (start [] [] 0),
         trace = [(NewWatcher, Some (OtherError ''too many open files'')),
                  (LogPrintln ''[MonCacheOnReadFs] NewWatcher error:''
                     (OtherError ''too many open files''), None)]\<rparr>)"
proof -
  let ?U = "memCache False (PathError ''stat'' ''/x'' ErrNotExist) Hour"
  let ?S = "start [(''/c'', fileAt (3 * Hour))] [(''/c'', fileAt 0), (''/gone'', fileAt 0)]
              (4 * Hour) :: (MemWorld, target \<times> string) machine"
  let ?ev = "Event ''/c'' 2"
  let ?m = "FromEvents (Event ''/x'' 2)"
  let ?ms = "[FromErrors (OtherError ''overflow''), FromEvents (Event ''/c'' 2),
              FromEvents (Event ''/c'' 1), FromEvents (Event ''/gone'' 18)]"
  let ?S1 = "\<lparr>world = world ?S, trace = [(FsCall Layer (OpStat ''/c''), None),
               (FsCall Base (OpStat ''/c''), None)]\<rparr>"
  let ?S2 = "snd (copyToLayer ?U memRuntime (Name ?ev) ?S1)"
  have h1: "Op ?ev AND fsnotify_Write = fsnotify_Write"
    by (simp add: fsnotify_Write_def)
  have h2: "cacheStatus ?U memRuntime (Name ?ev) ?S = ((cacheStale, Some (fileAt (3 * Hour)), None), ?S1)
      \<and> (cacheStale = cacheLocal \<or> cacheStale = cacheStale \<or> cacheStale = cacheHit)
      \<and> \<not> IsDir (fileAt (3 * Hour)) \<and> copyToLayer ?U memRuntime (Name ?ev) ?S1 = (None, ?S2)"
    by (simp add: mem_simps cacheStatus_def call_simps time_simps prod_eq_iff)
  have c1: "monitor_select ?U memRuntime (FromEvents ?ev) ?S =
      (Return (), case None of None \<Rightarrow> ?S2
                  | Some err \<Rightarrow> logPrintln ''[MonCacheOnReadFs] Cache error:'' err ?S2)"
    by (rule C8_watcher [of ?ev ?U memRuntime ?S ?m ?ms, THEN conjunct1, rule_format,
          OF h1, THEN conjunct2, rule_format, OF h2])
  have e1: "store (world ?S2) Layer = [(''/c'', fileAt (3 * Hour)), (''/gone'', fileAt 0)]"
    by (simp add: mem_simps call_simps)
  let ?S' = "\<lparr>world = world ?S, trace = trace ?S @ [(NewWatcher, None)]\<rparr>"
  have h3: "fsnotify_NewWatcher memRuntime (world ?S) = (None, world ?S)"
    by (simp add: mem_simps)
  have c2: "monitor ?U memRuntime (?m # ?ms) ?S = monitor_loop ?U memRuntime (?m # ?ms) ?S'"
    by (rule C8_watcher [of ?ev ?U memRuntime ?S ?m "?m # ?ms", THEN conjunct2, THEN conjunct2,
          THEN conjunct2, THEN conjunct2, rule_format, OF h3])
  have c3: "fst (monitor_loop ?U memRuntime (?m # ?ms) ?S') = Waiting"
    by (rule C8_watcher [of ?ev ?U memRuntime ?S' ?m "?m # ?ms", THEN conjunct2, THEN conjunct2,
          THEN conjunct1])
  have e2: "trace (snd (monitor_loop ?U memRuntime (?m # ?ms) ?S'))
     = [(NewWatcher, None),
        (FsCall Layer (OpStat ''/x''), Some (PathError ''stat'' ''/x'' ErrNotExist)),
        (LogPrintln ''[MonCacheOnReadFs] Cache status error:''
           (PathError ''stat'' ''/x'' ErrNotExist), None),
        (LogPrintln ''[MonCacheOnReadFs] Watcher error:'' (OtherError ''overflow''), None),
        (FsCall Layer (OpStat ''/c''), None), (FsCall Base (OpStat ''/c''), None),
        (CopyToLayer ''/c'', None),
        (FsCall Layer (OpStat ''/gone''), None), (FsCall Base (OpStat ''/gone''), Some ENOENT),
        (CopyToLayer ''/gone'', Some ENOENT),
        (LogPrintln ''[MonCacheOnReadFs] Cache error:'' ENOENT, None)]"
    by (simp add: mem_simps monitor_select_def cacheStatus_def fsnotify_Write_def
        call_simps time_simps)
  let ?R = "memRuntime\<lparr>fsnotify_NewWatcher := (\<lambda>w. (Some (OtherError ''too many open files''), w))\<rparr>"
  let ?T = "start [] [] 0 :: (MemWorld, target \<times> string) machine"
  have h4: "fsnotify_NewWatcher ?R (world ?T) = (Some (OtherError ''too many open files''), world ?T)"
    by simp
  have c4: "monitor (memCache False ENOENT Hour) ?R [FromEvents (Event ''/c'' 2)] ?T
     = (NotStarted, \<lparr>world = world ?T, trace = trace ?T @
          [(NewWatcher, Some (OtherError ''too many open files'')),
           (LogPrintln ''[MonCacheOnReadFs] NewWatcher error:''
              (OtherError ''too many open files''), None)]\<rparr>)"
    by (rule C8_watcher [of ?ev "memCache False ENOENT Hour" ?R ?T ?m "[FromEvents (Event ''/c'' 2)]",
          THEN conjunct2, THEN conjunct2, THEN conjunct2, THEN conjunct1, rule_format, OF h4])
  have e4: "trace ?T = []" by (simp add: start_def)
  from h1 c1 e1 c2 c3 e2 c4 e4 show ?thesis by simp
qed


end
